theory Spec2Isabelle
  imports Main
begin

section \<open>The runner of dnsx (internal/runner/runner.go)\<close>

text \<open>
  A shallow embedding of the enumeration pipeline of \<^verbatim>\<open>runner.go\<close>. Go structs are
  records, channels are the lists of the items sent on them (in sending order), the
  hybrid map is an association list in scan order, and every \<^verbatim>\<open>continue\<close>, error
  return and panic of the source is a value of the model. Functions of other packages
  (the DNS client, encoding/json, the file utilities) are parameters of the definitions
  that call them.
\<close>

subsection \<open>Data\<close>

text \<open>The question types of miekg/dns that \<^verbatim>\<open>New\<close> selects from (\<^verbatim>\<open>dns.TypeA\<close>, ...).\<close>

datatype qtype =
  TypeA | TypeAAAA | TypeCNAME | TypePTR | TypeSOA | TypeANY
  | TypeTXT | TypeSRV | TypeMX | TypeNS | TypeCAA

text \<open>\<^verbatim>\<open>ResumeCfg\<close>: the persisted cursor and the two running fields of the scan.\<close>

record ResumeCfg =
  Index :: int
  ResumeFrom :: string
  current :: string
  currentIndex :: int

text \<open>The fields of \<^verbatim>\<open>Options\<close> that runner.go reads or writes.\<close>

record Options =
  opt_A :: bool
  opt_AAAA :: bool
  opt_CNAME :: bool
  opt_PTR :: bool
  opt_SOA :: bool
  opt_ANY :: bool
  opt_TXT :: bool
  opt_SRV :: bool
  opt_MX :: bool
  opt_NS :: bool
  opt_CAA :: bool
  opt_AXFR :: bool
  opt_WildcardDomain :: string
  opt_WildcardThreshold :: int
  opt_Hosts :: string
  opt_Domains :: string
  opt_WordList :: string
  opt_ShowStatistics :: bool
  opt_resumeCfg :: "ResumeCfg option"
  opt_JSON :: bool
  opt_OmitRaw :: bool
  opt_Raw :: bool
  opt_Trace :: bool
  opt_OutputCDN :: bool
  opt_ASN :: bool
  opt_Response :: bool
  opt_ResponseOnly :: bool
  opt_hasRCodes :: bool
  opt_rcodes :: "int set"
  opt_responseTypeFilterMap :: "string list"

subsection \<open>New: the question types (lines 81-121)\<close>

text \<open>
  One \<^verbatim>\<open>append\<close> per enabled switch, in the order of the source; then type A is
  appended when the list is empty or a wildcard domain is configured.
\<close>

definition switchTypes :: "Options \<Rightarrow> qtype list" where
  "switchTypes opts =
     (if opt_A opts then [TypeA] else []) @
     (if opt_AAAA opts then [TypeAAAA] else []) @
     (if opt_CNAME opts then [TypeCNAME] else []) @
     (if opt_PTR opts then [TypePTR] else []) @
     (if opt_SOA opts then [TypeSOA] else []) @
     (if opt_ANY opts then [TypeANY] else []) @
     (if opt_TXT opts then [TypeTXT] else []) @
     (if opt_SRV opts then [TypeSRV] else []) @
     (if opt_MX opts then [TypeMX] else []) @
     (if opt_NS opts then [TypeNS] else []) @
     (if opt_CAA opts then [TypeCAA] else [])"

definition New_questionTypes :: "Options \<Rightarrow> qtype list" where
  "New_questionTypes opts =
     (let questionTypes = switchTypes opts in
      if length questionTypes = 0 \<or> opt_WildcardDomain opts \<noteq> []
      then questionTypes @ [TypeA]
      else questionTypes)"

definition New_options :: "Options \<Rightarrow> Options" where
  "New_options opts =
     (if length (switchTypes opts) = 0 \<or> opt_WildcardDomain opts \<noteq> []
      then opts\<lparr>opt_A := True\<rparr>
      else opts)"

text \<open>No record-type switch is enabled.\<close>

definition noSwitch :: "Options \<Rightarrow> bool" where
  "noSwitch opts \<longleftrightarrow>
     \<not> opt_A opts \<and> \<not> opt_AAAA opts \<and> \<not> opt_CNAME opts \<and> \<not> opt_PTR opts \<and>
     \<not> opt_SOA opts \<and> \<not> opt_ANY opts \<and> \<not> opt_TXT opts \<and> \<not> opt_SRV opts \<and>
     \<not> opt_MX opts \<and> \<not> opt_NS opts \<and> \<not> opt_CAA opts"

text \<open>A configuration with every switch off and every string empty, for examples.\<close>

definition defaultOptions :: Options where
  "defaultOptions =
     \<lparr>opt_A = False, opt_AAAA = False, opt_CNAME = False, opt_PTR = False, opt_SOA = False,
      opt_ANY = False, opt_TXT = False, opt_SRV = False, opt_MX = False, opt_NS = False,
      opt_CAA = False, opt_AXFR = False, opt_WildcardDomain = [], opt_WildcardThreshold = 5,
      opt_Hosts = [], opt_Domains = [], opt_WordList = [], opt_ShowStatistics = False,
      opt_resumeCfg = None, opt_JSON = False, opt_OmitRaw = False, opt_Raw = False,
      opt_Trace = False, opt_OutputCDN = False, opt_ASN = False, opt_Response = False,
      opt_ResponseOnly = False, opt_hasRCodes = False, opt_rcodes = {},
      opt_responseTypeFilterMap = []\<rparr>"

subsection \<open>Errors, the runner and its environment\<close>

text \<open>
  An error returned by the source or by a function it calls carries its message; a nil
  pointer dereference panics; a receive from a nil channel never returns.
\<close>

datatype error = Failure string | NilPointerDereference | BlockedOnNilChannel

text \<open>
  The hybrid map \<^verbatim>\<open>r.hm\<close>: keys with their stored bytes, in the order of \<^verbatim>\<open>Scan\<close>.
  A nil value is the empty byte string. \<^verbatim>\<open>Set\<close> overwrites the value of a present
  key in place and adds a new key at the end.
\<close>

type_synonym bytes = string

type_synonym HybridMap = "(string \<times> bytes) list"

definition hm_Get :: "HybridMap \<Rightarrow> string \<Rightarrow> bytes option" where
  "hm_Get hm k = map_of hm k"

fun hm_Set :: "HybridMap \<Rightarrow> string \<Rightarrow> bytes \<Rightarrow> HybridMap" where
  "hm_Set [] k v = [(k, v)]"
| "hm_Set ((k', v') # hm) k v =
     (if k' = k then (k, v) # hm else (k', v') # hm_Set hm k v)"

text \<open>
  The fields of \<^verbatim>\<open>Runner\<close> that the modelled functions use. A channel is the list
  of the items sent on it so far; \<^verbatim>\<open>stats_requests\<close>, \<^verbatim>\<open>stats_hosts\<close> and
  \<^verbatim>\<open>stats_total\<close> are the counters of the statistics client.
\<close>

record Runner =
  options :: Options
  questionTypes :: "qtype list"
  hm :: HybridMap
  wildcards :: "string set"
  workerchan :: "string list"
  outputchan :: "string list"
  tmpStdinFile :: string
  stats_requests :: int
  stats_hosts :: int
  stats_total :: int

text \<open>
  What the input functions ask of the file system, of standard input and of the helper
  packages (fileutil, iputil, mapcidr, asn). A channel of lines is the list of its lines.
  \<^verbatim>\<open>ScannerLines f\<close> are the lines a \<^verbatim>\<open>bufio.Scanner\<close> yields on the file \<^verbatim>\<open>f\<close>,
  \<^verbatim>\<open>StdinLines\<close> those it yields on standard input. \<^verbatim>\<open>argumentHasStdin\<close> is declared
  outside runner.go.
\<close>

record Env =
  FileExists :: "string \<Rightarrow> bool"
  HasStdin :: bool
  GetTempFileName :: "error + string"
  os_Create :: "string \<Rightarrow> error option"
  io_Copy_stdin :: "string \<Rightarrow> error option"
  ReadFile :: "string \<Rightarrow> error + string list"
  ReadFileWithReader :: "string \<Rightarrow> error + string list"
  ScannerLines :: "string \<Rightarrow> string list"
  StdinLines :: "string list"
  argumentHasStdin :: "string \<Rightarrow> bool"
  IsCIDR :: "string \<Rightarrow> bool"
  IsASN :: "string \<Rightarrow> bool"
  IPAddressesAsStream :: "string \<Rightarrow> error + string list"
  GetIPAddressesAsStream :: "string \<Rightarrow> error + string list"

subsection \<open>Strings\<close>

text \<open>
  \<^verbatim>\<open>strings.TrimSpace\<close>, \<^verbatim>\<open>strings.ToLower\<close>, \<^verbatim>\<open>strings.Contains\<close> and
  \<^verbatim>\<open>strings.ReplaceAll\<close> on byte strings. The white space is that of ASCII (tab, line
  feed, vertical tab, form feed, carriage return, space) and the letters lowered are A-Z;
  Go also treats the Unicode white space and letters beyond ASCII, which are several bytes
  each in UTF-8 and are left as they are here.
\<close>

definition isSpace :: "char \<Rightarrow> bool" where
  "isSpace c \<longleftrightarrow> c \<in> {CHR 0x09, CHR 0x0A, CHR 0x0B, CHR 0x0C, CHR 0x0D, CHR '' ''}"

definition TrimSpace :: "string \<Rightarrow> string" where
  "TrimSpace s = rev (dropWhile isSpace (rev (dropWhile isSpace s)))"

definition toLowerChar :: "char \<Rightarrow> char" where
  "toLowerChar c =
     (case map_of (zip ''ABCDEFGHIJKLMNOPQRSTUVWXYZ'' ''abcdefghijklmnopqrstuvwxyz'') c of
        Some l \<Rightarrow> l
      | None \<Rightarrow> c)"

definition ToLower :: "string \<Rightarrow> string" where
  "ToLower s = map toLowerChar s"

fun Contains :: "string \<Rightarrow> string \<Rightarrow> bool" where
  "Contains [] sub = (sub = [])"
| "Contains (c # s) sub = (take (length sub) (c # s) = sub \<or> Contains s sub)"

text \<open>
  \<^verbatim>\<open>ReplaceAll s old new\<close> replaces the non-overlapping occurrences of a non-empty
  \<^verbatim>\<open>old\<close> from left to right. An empty \<^verbatim>\<open>old\<close> matches before every character
  and at the end.
\<close>

fun ReplaceAll :: "string \<Rightarrow> string \<Rightarrow> string \<Rightarrow> string" where
  "ReplaceAll [] old new = (if old = [] then new else [])"
| "ReplaceAll (c # s) old new =
     (if old = [] then new @ c # ReplaceAll s old new
      else if take (length old) (c # s) = old
      then new @ ReplaceAll (drop (length old) (c # s)) old new
      else c # ReplaceAll s old new)"

text \<open>
  Modelled from the spec: the constants \<^verbatim>\<open>Comma\<close> and \<^verbatim>\<open>NewLine\<close> are declared
  outside runner.go; the spec speaks of a comma-delimited inline string and of
  line-oriented sources.
\<close>

definition Comma :: string where
  "Comma = '',''"

definition NewLine :: string where
  "NewLine = [CHR 0x0A]"

definition normalize_str :: "string \<Rightarrow> string" where
  "normalize_str data = TrimSpace data"

subsection \<open>InputWorker (lines 200-217)\<close>

text \<open>
  The callback of \<^verbatim>\<open>r.hm.Scan\<close> on one key: count the requests, advance the resume
  cursor, and either return early (the item is skipped) or send the item on
  \<^verbatim>\<open>workerchan\<close>. Go's \<^verbatim>\<open>int\<close> has 64 bits; the cursor counts the scanned keys and
  stays far below the bound, so it is an integer here.
\<close>

definition InputWorker_item :: "string \<Rightarrow> Runner \<Rightarrow> Runner" where
  "InputWorker_item item r =
     (let r1 = (if opt_ShowStatistics (options r)
                then r\<lparr>stats_requests := stats_requests r + int (length (questionTypes r))\<rparr>
                else r)
      in case opt_resumeCfg (options r1) of
           None \<Rightarrow> r1\<lparr>workerchan := workerchan r1 @ [item]\<rparr>
         | Some cfg \<Rightarrow>
             let cfg' = cfg\<lparr>current := item, currentIndex := currentIndex cfg + 1\<rparr>;
                 r2 = r1\<lparr>options := (options r1)\<lparr>opt_resumeCfg := Some cfg'\<rparr>\<rparr>
             in if currentIndex cfg' \<le> Index cfg' then r2
                else r2\<lparr>workerchan := workerchan r2 @ [item]\<rparr>)"

definition InputWorker :: "Runner \<Rightarrow> Runner" where
  "InputWorker r = fold InputWorker_item (map fst (hm r)) r"

subsection \<open>prepareInput (lines 219-381)\<close>

text \<open>
  \<^verbatim>\<open>addHostsToHMapFromList\<close> returns the number of hosts it added; the model returns
  the map as well. \<^verbatim>\<open>addHostsToHMapFromChan\<close> has the same body over a channel.
\<close>

fun addHostsToHMapFromList :: "string list \<Rightarrow> HybridMap \<Rightarrow> int \<times> HybridMap" where
  "addHostsToHMapFromList [] m = (0, m)"
| "addHostsToHMapFromList (host # hosts) m =
     (case hm_Get m host of
        Some _ \<Rightarrow> addHostsToHMapFromList hosts m
      | None \<Rightarrow>
          (let (numHosts, m') = addHostsToHMapFromList hosts (hm_Set m host [])
           in (numHosts + 1, m')))"

definition addHostsToHMapFromChan :: "string list \<Rightarrow> HybridMap \<Rightarrow> int \<times> HybridMap" where
  "addHostsToHMapFromChan hosts m = addHostsToHMapFromList hosts m"

definition preProcessArgument :: "Env \<Rightarrow> string \<Rightarrow> string \<Rightarrow> error + string list" where
  "preProcessArgument env tmp arg =
     (if FileExists env arg then ReadFile env arg
      else if argumentHasStdin env arg then ReadFile env tmp
      else if arg \<noteq> [] then ReadFileWithReader env (ReplaceAll arg Comma NewLine)
      else Inl (Failure ''empty argument''))"

text \<open>
  The loop over the input lines (lines 273-316), with the number of hosts and the map
  as its state. An error of a source of hosts ends the loop with that error.
\<close>

fun prepareInput_items ::
  "Env \<Rightarrow> Options \<Rightarrow> string \<Rightarrow> string list \<Rightarrow> int \<times> HybridMap \<Rightarrow> error + int \<times> HybridMap" where
  "prepareInput_items env opts tmp [] st = Inr st"
| "prepareInput_items env opts tmp (line # sc) (numHosts, m) =
     (let item = normalize_str line in
      if Contains item ''FUZZ'' then
        (case preProcessArgument env tmp (opt_WordList opts) of
           Inl err \<Rightarrow> Inl err
         | Inr fuzz \<Rightarrow>
             (let (n, m') = addHostsToHMapFromList (map (\<lambda>w. ReplaceAll item ''FUZZ'' w) fuzz) m
              in prepareInput_items env opts tmp sc (numHosts + n, m')))
      else if opt_WordList opts \<noteq> [] then
        (case preProcessArgument env tmp (opt_WordList opts) of
           Inl err \<Rightarrow> Inl err
         | Inr prefixes \<Rightarrow>
             (let (n, m') =
                addHostsToHMapFromList (map (\<lambda>prefix. TrimSpace prefix @ ''.'' @ item) prefixes) m
              in prepareInput_items env opts tmp sc (numHosts + n, m')))
      else if IsCIDR env item then
        (case IPAddressesAsStream env item of
           Inl err \<Rightarrow> Inl err
         | Inr hostC \<Rightarrow>
             (let (n, m') = addHostsToHMapFromChan hostC m
              in prepareInput_items env opts tmp sc (numHosts + n, m')))
      else if IsASN env item then
        (case GetIPAddressesAsStream env item of
           Inl err \<Rightarrow> Inl err
         | Inr hostC \<Rightarrow>
             (let (n, m') = addHostsToHMapFromChan hostC m
              in prepareInput_items env opts tmp sc (numHosts + n, m')))
      else
        (let (n, m') = addHostsToHMapFromList [item] m
         in prepareInput_items env opts tmp sc (numHosts + n, m')))"

text \<open>Lines 226-245: standard input, when there is one, is copied to a temporary file.\<close>

definition copyStdin :: "Env \<Rightarrow> Runner \<Rightarrow> error + Runner" where
  "copyStdin env r =
     (if HasStdin env then
        (case GetTempFileName env of
           Inl err \<Rightarrow> Inl err
         | Inr tmp \<Rightarrow>
             (case os_Create env tmp of
                Some err \<Rightarrow> Inl err
              | None \<Rightarrow>
                  (case io_Copy_stdin env tmp of
                     Some err \<Rightarrow> Inl err
                   | None \<Rightarrow> Inr (r\<lparr>tmpStdinFile := tmp\<rparr>))))
      else Inr r)"

text \<open>Lines 247-271: the channel of input lines \<^verbatim>\<open>sc\<close>.\<close>

definition inputLines :: "Env \<Rightarrow> Runner \<Rightarrow> error + string list" where
  "inputLines env r =
     (if opt_Domains (options r) \<noteq> [] then
        preProcessArgument env (tmpStdinFile r) (opt_Domains (options r))
      else if FileExists env (opt_Hosts (options r)) then ReadFile env (opt_Hosts (options r))
      else if argumentHasStdin env (opt_Hosts (options r)) \<or> HasStdin env then
        ReadFile env (tmpStdinFile r)
      else Inl (Failure ''hosts file or stdin not provided''))"

definition prepareInput :: "Env \<Rightarrow> Runner \<Rightarrow> error + Runner" where
  "prepareInput env r =
     (case copyStdin env r of
        Inl err \<Rightarrow> Inl err
      | Inr r1 \<Rightarrow>
          (case inputLines env r1 of
             Inl err \<Rightarrow> Inl err
           | Inr sc \<Rightarrow>
               (case prepareInput_items env (options r1) (tmpStdinFile r1) sc (0, hm r1) of
                  Inl err \<Rightarrow> Inl err
                | Inr (numHosts, m) \<Rightarrow>
                    Inr (if opt_ShowStatistics (options r1)
                         then r1\<lparr>hm := m, stats_requests := 0, stats_hosts := numHosts,
                                  stats_total := numHosts * int (length (questionTypes r1))\<rparr>
                         else r1\<lparr>hm := m\<rparr>))))"

subsection \<open>InputWorkerStream (lines 170-198)\<close>

text \<open>
  The hosts one scanned line contributes to \<^verbatim>\<open>workerchan\<close>. The errors of the two
  expanders are dropped by the source, which then ranges over the nil channel they
  return with the error: that receive never returns.
\<close>

definition InputWorkerStream_item :: "Env \<Rightarrow> string \<Rightarrow> error + string list" where
  "InputWorkerStream_item env line =
     (let item = TrimSpace line in
      if IsCIDR env item then
        (case IPAddressesAsStream env item of
           Inl _ \<Rightarrow> Inl BlockedOnNilChannel
         | Inr hostsC \<Rightarrow> Inr hostsC)
      else if IsASN env item then
        (case GetIPAddressesAsStream env item of
           Inl _ \<Rightarrow> Inl BlockedOnNilChannel
         | Inr hostsC \<Rightarrow> Inr hostsC)
      else Inr [item])"

fun InputWorkerStream_scan :: "Env \<Rightarrow> string list \<Rightarrow> Runner \<Rightarrow> error + Runner" where
  "InputWorkerStream_scan env [] r = Inr r"
| "InputWorkerStream_scan env (line # sc) r =
     (case InputWorkerStream_item env line of
        Inl err \<Rightarrow> Inl err
      | Inr hosts \<Rightarrow> InputWorkerStream_scan env sc (r\<lparr>workerchan := workerchan r @ hosts\<rparr>))"

text \<open>
  The scanner \<^verbatim>\<open>sc\<close> is a pointer that stays nil when neither branch assigns it;
  \<^verbatim>\<open>sc.Scan()\<close> on the nil pointer reads a field of the scanner and panics.
\<close>

definition streamScanner :: "Env \<Rightarrow> Runner \<Rightarrow> string list option" where
  "streamScanner env r =
     (if FileExists env (opt_Hosts (options r)) then Some (ScannerLines env (opt_Hosts (options r)))
      else if HasStdin env then Some (StdinLines env)
      else None)"

definition InputWorkerStream :: "Env \<Rightarrow> Runner \<Rightarrow> error + Runner" where
  "InputWorkerStream env r =
     (case streamScanner env r of
        None \<Rightarrow> Inl NilPointerDereference
      | Some sc \<Rightarrow> InputWorkerStream_scan env sc r)"

subsection \<open>DNS data\<close>

text \<open>
  The fields of \<^verbatim>\<open>retryabledns.DNSData\<close> that runner.go reads. A nil slice is the
  empty list; \<^verbatim>\<open>d_TimestampIsZero\<close> is \<^verbatim>\<open>Timestamp.IsZero()\<close>.
\<close>

record SOA =
  soa_NS :: string
  soa_Mbox :: string

record DNSData =
  d_Host :: string
  d_TimestampIsZero :: bool
  d_HostsFile :: bool
  d_StatusCodeRaw :: int
  d_Raw :: string
  d_A :: "string list"
  d_AAAA :: "string list"
  d_CNAME :: "string list"
  d_MX :: "string list"
  d_NS :: "string list"
  d_SOA :: "SOA list"
  d_TXT :: "string list"
  d_SRV :: "string list"
  d_CAA :: "string list"
  d_PTR :: "string list"

text \<open>
  The decoders and the encoder the wildcard pass calls: \<^verbatim>\<open>json.Unmarshal\<close> into a
  \<^verbatim>\<open>DNSData\<close> (line 469), \<^verbatim>\<open>DNSData.Unmarshal\<close> (line 550) and
  \<^verbatim>\<open>DNSData.JSON\<close> (lines 554 and 908).
\<close>

record Codec =
  json_Unmarshal :: "bytes \<Rightarrow> error + DNSData"
  dnsdata_Unmarshal :: "bytes \<Rightarrow> error + DNSData"
  dnsdata_JSON :: "DNSData \<Rightarrow> error + string"

subsection \<open>The wildcard pass of run (lines 462-541)\<close>

text \<open>
  Lines 464-484: the scan of the Work Set builds \<^verbatim>\<open>ipDomain\<close>, from an IP to the
  set of the hosts that have it among their A records, and \<^verbatim>\<open>listIPs\<close>, the IPs in
  the order they were first met. A set of hosts is the list of its members in insertion
  order, without repetition.
\<close>

record WildcardScan =
  ipDomain :: "string \<rightharpoonup> string list"
  listIPs :: "string list"

definition addIP :: "string \<Rightarrow> string \<Rightarrow> WildcardScan \<Rightarrow> WildcardScan" where
  "addIP k a sc =
     (case ipDomain sc a of
        None \<Rightarrow> sc\<lparr>ipDomain := (ipDomain sc)(a \<mapsto> [k]), listIPs := listIPs sc @ [a]\<rparr>
      | Some hosts \<Rightarrow>
          sc\<lparr>ipDomain := (ipDomain sc)(a \<mapsto> (if k \<in> set hosts then hosts else hosts @ [k]))\<rparr>)"

definition scanItem :: "Codec \<Rightarrow> string \<times> bytes \<Rightarrow> WildcardScan \<Rightarrow> WildcardScan" where
  "scanItem cd kv sc =
     (case json_Unmarshal cd (snd kv) of
        Inl err \<Rightarrow> sc
      | Inr dnsdata \<Rightarrow> fold (addIP (fst kv)) (d_A dnsdata) sc)"

definition buildIPDomain :: "Codec \<Rightarrow> HybridMap \<Rightarrow> WildcardScan" where
  "buildIPDomain cd m = fold (scanItem cd) m \<lparr>ipDomain = Map.empty, listIPs = []\<rparr>"

text \<open>\<^verbatim>\<open>ipDomain[a]\<close>: the nil map of a missing key has no members.\<close>

definition hostsOf :: "WildcardScan \<Rightarrow> string \<Rightarrow> string list" where
  "hostsOf sc a = (case ipDomain sc a of None \<Rightarrow> [] | Some hosts \<Rightarrow> hosts)"

text \<open>
  Go leaves the order in which \<^verbatim>\<open>range\<close> visits a map open. The functions below
  take it as the parameter \<^verbatim>\<open>rangeOrder\<close>, from the members of a set to the order of
  the visit.

  Lines 497-508: the hosts sent to the wildcard workers, each once.
\<close>

definition wildcardCandidates ::
  "(string list \<Rightarrow> string list) \<Rightarrow> int \<Rightarrow> WildcardScan \<Rightarrow> string list" where
  "wildcardCandidates rangeOrder threshold sc =
     fold (\<lambda>a sent.
             if int (length (hostsOf sc a)) \<ge> threshold
             then fold (\<lambda>host sent. if host \<in> set sent then sent else sent @ [host])
                    (rangeOrder (hostsOf sc a)) sent
             else sent)
       (listIPs sc) []"

text \<open>
  \<^verbatim>\<open>lookupAndOutput\<close> (lines 546-565): the line sent on \<^verbatim>\<open>outputchan\<close>, or the
  error returned before anything is sent.
\<close>

definition lookupAndOutput :: "Codec \<Rightarrow> Runner \<Rightarrow> string \<Rightarrow> error + string" where
  "lookupAndOutput cd r host =
     (if opt_JSON (options r) then
        (case hm_Get (hm r) host of
           Some data \<Rightarrow>
             (case dnsdata_Unmarshal cd data of
                Inl err \<Rightarrow> Inl err
              | Inr dnsData \<Rightarrow>
                  (case dnsdata_JSON cd dnsData of
                     Inl err \<Rightarrow> Inl err
                   | Inr dnsDataJson \<Rightarrow> Inr dnsDataJson))
         | None \<Rightarrow> Inr host)
      else Inr host)"

text \<open>
  Lines 512-541: the final pass. \<^verbatim>\<open>fp_sent\<close> lists the lines sent on the restarted
  \<^verbatim>\<open>outputchan\<close>, each with the host it was sent for.
\<close>

record FinalPass =
  fp_seen :: "string set"
  fp_seenRemovedSubdomains :: "string set"
  fp_numRemovedSubdomains :: int
  fp_sent :: "(string \<times> string) list"

definition emitHost :: "Codec \<Rightarrow> Runner \<Rightarrow> string \<Rightarrow> FinalPass \<Rightarrow> FinalPass" where
  "emitHost cd r host st =
     (if host \<in> fp_seen st then st
      else (let st1 = st\<lparr>fp_seen := insert host (fp_seen st)\<rparr>
            in case lookupAndOutput cd r host of
                 Inl err \<Rightarrow> st1
               | Inr line \<Rightarrow> st1\<lparr>fp_sent := fp_sent st1 @ [(host, line)]\<rparr>))"

definition finalPass_host :: "Codec \<Rightarrow> Runner \<Rightarrow> string \<Rightarrow> FinalPass \<Rightarrow> FinalPass" where
  "finalPass_host cd r host st =
     (if host = opt_WildcardDomain (options r) then emitHost cd r host st
      else if host \<notin> wildcards r then emitHost cd r host st
      else if host \<in> fp_seenRemovedSubdomains st then st
      else st\<lparr>fp_numRemovedSubdomains := fp_numRemovedSubdomains st + 1,
              fp_seenRemovedSubdomains := insert host (fp_seenRemovedSubdomains st)\<rparr>)"

definition finalPass ::
  "Codec \<Rightarrow> (string list \<Rightarrow> string list) \<Rightarrow> Runner \<Rightarrow> WildcardScan \<Rightarrow> FinalPass" where
  "finalPass cd rangeOrder r sc =
     fold (\<lambda>a st. fold (finalPass_host cd r) (rangeOrder (hostsOf sc a)) st) (listIPs sc)
       \<lparr>fp_seen = {}, fp_seenRemovedSubdomains = {}, fp_numRemovedSubdomains = 0, fp_sent = []\<rparr>"

text \<open>How many lines the final pass sent for a host.\<close>

definition emitted :: "FinalPass \<Rightarrow> string \<Rightarrow> nat" where
  "emitted st host = count_list (map fst (fp_sent st)) host"

text \<open>The Work Set stores, under the host, bytes that decode to an answer with an A record.\<close>

definition hasARecord :: "Codec \<Rightarrow> HybridMap \<Rightarrow> string \<Rightarrow> bool" where
  "hasARecord cd m host \<longleftrightarrow>
     list_ex (\<lambda>(k, v). k = host \<and>
                (case json_Unmarshal cd v of Inl err \<Rightarrow> False | Inr dnsdata \<Rightarrow> d_A dnsdata \<noteq> [])) m"

text \<open>
  The hosts the final pass visits; the test of lines 519 and 524 that sends a host to
  the output; and whether \<^verbatim>\<open>lookupAndOutput\<close> sends a line for a host.
\<close>

definition allHosts :: "WildcardScan \<Rightarrow> string set" where
  "allHosts sc = (\<Union>a\<in>set (listIPs sc). set (hostsOf sc a))"

definition keepHost :: "Runner \<Rightarrow> string \<Rightarrow> bool" where
  "keepHost r host \<longleftrightarrow> host = opt_WildcardDomain (options r) \<or> host \<notin> wildcards r"

definition lookupSucceeds :: "Codec \<Rightarrow> Runner \<Rightarrow> string \<Rightarrow> bool" where
  "lookupSucceeds cd r host \<longleftrightarrow>
     (case lookupAndOutput cd r host of Inl err \<Rightarrow> False | Inr line \<Rightarrow> True)"

subsection \<open>The resolver worker (lines 628-905)\<close>

text \<open>
  \<^verbatim>\<open>dnsx.ResponseData\<close>: the DNS data with the trace, the zone transfer and the CDN
  and ASN annotations. A hop of a trace keeps its raw text and the printed form of its
  raw response, if it has one; the data of a zone transfer is its list of answers;
  \<^verbatim>\<open>resp_ASN\<close> is the AS number of an \<^verbatim>\<open>asnmap.Response\<close> as \<^verbatim>\<open>%v\<close> prints it.
\<close>

record TraceHop =
  hop_Raw :: string
  hop_RawResp :: "string option"

record AsnResponse =
  AsNumber :: string
  AsName :: string
  AsCountry :: string
  AsRange :: "string list"

record asnmapResponse =
  resp_ASN :: string
  resp_Org :: string
  resp_Country :: string

record ResponseData =
  rd_DNSData :: DNSData
  rd_TraceData :: "TraceHop list option"
  rd_AXFRData :: "DNSData list option"
  rd_IsCDNIP :: bool
  rd_CDNName :: string
  rd_ASN :: "AsnResponse option"

text \<open>
  What the worker asks of the DNS client, the ASN client and the other packages. A call
  whose error the source drops returns \<^verbatim>\<open>None\<close> (a nil result) on error.
  \<^verbatim>\<open>isURL\<close>, \<^verbatim>\<open>extractDomain\<close>, \<^verbatim>\<open>AsnResponse.String\<close> and
  \<^verbatim>\<open>ResponseData.JSON\<close> (here with the flag of \<^verbatim>\<open>WithoutAllRecords\<close>) are declared
  outside runner.go.
\<close>

record Lib =
  isURL :: "string \<Rightarrow> bool"
  extractDomain :: "string \<Rightarrow> string"
  QueryMultiple :: "string \<Rightarrow> DNSData option"
  Trace :: "string \<Rightarrow> TraceHop list option"
  AXFR :: "string \<Rightarrow> DNSData list option"
  CdnCheck :: "string \<Rightarrow> bool \<times> string"
  Lookup :: "string \<Rightarrow> string list"
  IsIP :: "string \<Rightarrow> bool"
  asnmap_GetData :: "string \<Rightarrow> asnmapResponse list option"
  asnmap_GetCIDR :: "asnmapResponse list \<Rightarrow> string list"
  AsnResponse_String :: "AsnResponse \<Rightarrow> string"
  ResponseData_JSON :: "bool \<Rightarrow> ResponseData \<Rightarrow> string"
  GetSOARecords :: "DNSData \<Rightarrow> string list"
  Dedupe :: "string list \<Rightarrow> string list"
  Merge :: "string list list \<Rightarrow> string list"
  RcodeToString :: "int \<rightharpoonup> string"
  Magenta :: "string \<Rightarrow> string"
  Green :: "string \<Rightarrow> string"

text \<open>\<^verbatim>\<open>outputRecordType\<close> (lines 817-848). The argument \<^verbatim>\<open>items\<close> is an interface value.\<close>

datatype items = Strings "string list" | SOAs "SOA list" | OtherItems

fun recordsOf :: "items \<Rightarrow> string list" where
  "recordsOf (Strings xs) = xs"
| "recordsOf (SOAs soas) = concat (map (\<lambda>item. [soa_NS item, soa_Mbox item]) soas)"
| "recordsOf OtherItems = []"

definition detailsOf :: "Lib \<Rightarrow> string \<Rightarrow> AsnResponse option \<Rightarrow> string" where
  "detailsOf lib cdnName asn =
     (let details = (if cdnName \<noteq> [] then '' ['' @ cdnName @ '']'' else [])
      in case asn of None \<Rightarrow> details | Some a \<Rightarrow> details @ '' '' @ AsnResponse_String lib a)"

text \<open>The loop over the records (lines 836-847); the last branch leaves it.\<close>

fun outputRecords ::
  "Options \<Rightarrow> Lib \<Rightarrow> string \<Rightarrow> string \<Rightarrow> string \<Rightarrow> string list \<Rightarrow> string list" where
  "outputRecords opts lib domain queryType details [] = []"
| "outputRecords opts lib domain queryType details (item # records) =
     (if opt_ResponseOnly opts then
        (ToLower item @ details) # outputRecords opts lib domain queryType details records
      else if opt_Response opts then
        (domain @ '' ['' @ Magenta lib queryType @ ''] ['' @ Green lib (ToLower item) @ ''] '' @ details)
          # outputRecords opts lib domain queryType details records
      else [domain @ details])"

definition outputRecordType ::
  "Options \<Rightarrow> Lib \<Rightarrow> string \<Rightarrow> items \<Rightarrow> string \<Rightarrow> string \<Rightarrow> AsnResponse option \<Rightarrow> string list" where
  "outputRecordType opts lib domain its queryType cdnName asn =
     outputRecords opts lib domain queryType (detailsOf lib cdnName asn) (recordsOf its)"

definition outputResponseCode :: "Lib \<Rightarrow> string \<Rightarrow> int \<Rightarrow> string list" where
  "outputResponseCode lib domain responsecode =
     (case RcodeToString lib responsecode of
        Some responseCodeExt \<Rightarrow> [domain @ '' ['' @ responseCodeExt @ '']'']
      | None \<Rightarrow> [])"

text \<open>\<^verbatim>\<open>shouldSkipRecord\<close> (lines 857-905): the default branch of the switch returns.\<close>

fun shouldSkipRecord :: "string list \<Rightarrow> DNSData \<Rightarrow> bool" where
  "shouldSkipRecord [] d = False"
| "shouldSkipRecord (et # ets) d =
     (let t = ToLower (TrimSpace et) in
      if t = ''a'' then (if length (d_A d) > 0 then True else shouldSkipRecord ets d)
      else if t = ''aaaa'' then (if length (d_AAAA d) > 0 then True else shouldSkipRecord ets d)
      else if t = ''cname'' then (if length (d_CNAME d) > 0 then True else shouldSkipRecord ets d)
      else if t = ''ns'' then (if length (d_NS d) > 0 then True else shouldSkipRecord ets d)
      else if t = ''txt'' then (if length (d_TXT d) > 0 then True else shouldSkipRecord ets d)
      else if t = ''mx'' then (if length (d_MX d) > 0 then True else shouldSkipRecord ets d)
      else if t = ''soa'' then (if length (d_SOA d) > 0 then True else shouldSkipRecord ets d)
      else if t = ''srv'' then (if length (d_SRV d) > 0 then True else shouldSkipRecord ets d)
      else if t = ''ptr'' then (if length (d_PTR d) > 0 then True else shouldSkipRecord ets d)
      else if t = ''caa'' then (if length (d_CAA d) > 0 then True else shouldSkipRecord ets d)
      else False)"

text \<open>What the worker does with one domain: one value for each \<^verbatim>\<open>continue\<close>.\<close>

datatype outcome =
  SkipNilResponse | SkipNoHostOrTimestamp | SkipRcode | SkipAXFR
  | Store DNSData | SkipFilter | Output "string list"

text \<open>Lines 647-655: the response code check.\<close>

definition rcodeRejected :: "Options \<Rightarrow> DNSData \<Rightarrow> bool" where
  "rcodeRejected opts d =
     (if \<not> d_HostsFile d then
        (if opt_rcodes opts \<noteq> {} then
           (if d_StatusCodeRaw d \<notin> opt_rcodes opts then True else False)
         else False)
      else False)"

text \<open>Lines 661-674: the trace and the raw field.\<close>

definition traceStage :: "Options \<Rightarrow> Lib \<Rightarrow> string \<Rightarrow> ResponseData \<Rightarrow> ResponseData" where
  "traceStage opts lib domain rd =
     (if opt_Trace opts then
        (case Trace lib domain of
           None \<Rightarrow> rd\<lparr>rd_TraceData := None\<rparr>
         | Some hops \<Rightarrow>
             rd\<lparr>rd_TraceData :=
                   Some (map (\<lambda>h. case hop_RawResp h of
                                     Some rawRespString \<Rightarrow>
                                       if opt_Raw opts then \<lparr>hop_Raw = rawRespString, hop_RawResp = None\<rparr>
                                       else h\<lparr>hop_RawResp := None\<rparr>
                                   | None \<Rightarrow> h) hops),
                 rd_DNSData := (rd_DNSData rd)\<lparr>d_Raw :=
                   d_Raw (rd_DNSData rd) @
                   concat (map (\<lambda>h. case hop_RawResp h of
                                       Some rawRespString \<Rightarrow>
                                         if opt_Raw opts then rawRespString @ [CHR 0x0A] else []
                                     | None \<Rightarrow> []) hops)\<rparr>\<rparr>)
      else rd)"

text \<open>Lines 676-688: the zone transfer; \<^verbatim>\<open>None\<close> is the \<^verbatim>\<open>continue\<close> of line 686.\<close>

definition axfrStage ::
  "Options \<Rightarrow> qtype list \<Rightarrow> Lib \<Rightarrow> string \<Rightarrow> ResponseData \<Rightarrow> ResponseData option" where
  "axfrStage opts qts lib domain rd =
     (if opt_AXFR opts then
        (let axfrData = AXFR lib domain;
             rd1 = (case axfrData of None \<Rightarrow> rd | Some a \<Rightarrow> rd\<lparr>rd_AXFRData := Some a\<rparr>);
             hasAxfrData = (case axfrData of None \<Rightarrow> False | Some a \<Rightarrow> length a > 0)
         in if length qts = 1 \<and> \<not> hasAxfrData \<and> \<not> opt_JSON opts then None else Some rd1)
      else Some rd)"

text \<open>Lines 689-720: the CDN flags and the ASN description.\<close>

definition cdnStage :: "Options \<Rightarrow> Lib \<Rightarrow> string \<Rightarrow> ResponseData \<Rightarrow> ResponseData" where
  "cdnStage opts lib domain rd =
     (if opt_OutputCDN opts
      then rd\<lparr>rd_IsCDNIP := fst (CdnCheck lib domain), rd_CDNName := snd (CdnCheck lib domain)\<rparr>
      else rd)"

definition asnStage :: "Options \<Rightarrow> Lib \<Rightarrow> string \<Rightarrow> ResponseData \<Rightarrow> ResponseData" where
  "asnStage opts lib domain rd =
     (if opt_ASN opts then
        (let ips = (if d_A (rd_DNSData rd) = [] then Lookup lib domain else d_A (rd_DNSData rd));
             results =
               concat (map (\<lambda>ip. case asnmap_GetData lib ip of Some data \<Rightarrow> data | None \<Rightarrow> []) ips) @
               (if IsIP lib domain
                then (case asnmap_GetData lib domain of Some data \<Rightarrow> data | None \<Rightarrow> [])
                else [])
         in case results of
              [] \<Rightarrow> rd
            | first # _ \<Rightarrow>
                rd\<lparr>rd_ASN := Some \<lparr>AsNumber = ''AS'' @ resp_ASN first, AsName = resp_Org first,
                                    AsCountry = resp_Country first,
                                    AsRange = asnmap_GetCIDR lib results\<rparr>\<rparr>)
      else rd)"

text \<open>Lines 750-761 and 769-813: the calls of \<^verbatim>\<open>outputRecordType\<close>, in their order.\<close>

definition outputFiltered :: "Options \<Rightarrow> Lib \<Rightarrow> string \<Rightarrow> ResponseData \<Rightarrow> string list" where
  "outputFiltered opts lib domain rd =
     (let d = rd_DNSData rd;
          out = (\<lambda>its queryType. outputRecordType opts lib domain its queryType (rd_CDNName rd) (rd_ASN rd))
      in out (Strings (d_A d)) ''A'' @ out (Strings (d_AAAA d)) ''AAAA'' @
         out (Strings (d_CNAME d)) ''CNAME'' @ out (Strings (d_MX d)) ''MX'' @
         out (Strings (d_NS d)) ''NS'' @ out (Strings (Dedupe lib (GetSOARecords lib d))) ''SOA'' @
         out (Strings (d_TXT d)) ''TXT'' @ out (Strings (d_SRV d)) ''SRV'' @
         out (Strings (d_CAA d)) ''CAA'' @ out (Strings (d_PTR d)) ''PTR'')"

definition allParsedRecords :: "Lib \<Rightarrow> DNSData \<Rightarrow> string list" where
  "allParsedRecords lib d =
     Merge lib [d_A d, d_AAAA d, d_CNAME d, d_MX d, d_PTR d, Dedupe lib (GetSOARecords lib d),
                d_NS d, d_TXT d, d_SRV d, d_CAA d]"

text \<open>
  The switches of lines 769-813 in their order, each with the query type it prints and
  the records it passes to \<^verbatim>\<open>outputRecordType\<close>.
\<close>

definition switchRecords :: "Options \<Rightarrow> Lib \<Rightarrow> DNSData \<Rightarrow> (bool \<times> string \<times> string list) list" where
  "switchRecords opts lib d =
     [(opt_A opts, ''A'', d_A d), (opt_AAAA opts, ''AAAA'', d_AAAA d),
      (opt_CNAME opts, ''CNAME'', d_CNAME d), (opt_PTR opts, ''PTR'', d_PTR d),
      (opt_MX opts, ''MX'', d_MX d), (opt_NS opts, ''NS'', d_NS d),
      (opt_SOA opts, ''SOA'', Dedupe lib (GetSOARecords lib d)),
      (opt_ANY opts, ''ANY'', allParsedRecords lib d), (opt_TXT opts, ''TXT'', d_TXT d),
      (opt_SRV opts, ''SRV'', d_SRV d), (opt_CAA opts, ''CAA'', d_CAA d)]"

definition outputTyped :: "Options \<Rightarrow> Lib \<Rightarrow> string \<Rightarrow> ResponseData \<Rightarrow> string list" where
  "outputTyped opts lib domain rd =
     concat (map (\<lambda>(enabled, queryType, records).
                    if enabled
                    then outputRecordType opts lib domain (Strings records) queryType
                           (rd_CDNName rd) (rd_ASN rd)
                    else [])
               (switchRecords opts lib (rd_DNSData rd)))"

text \<open>Lines 721-814: store, suppress or print.\<close>

definition dispatch :: "Options \<Rightarrow> Lib \<Rightarrow> string \<Rightarrow> ResponseData \<Rightarrow> outcome" where
  "dispatch opts lib domain rd =
     (if opt_WildcardDomain opts \<noteq> [] then Store (rd_DNSData rd)
      else if length (opt_responseTypeFilterMap opts) > 0 \<and>
              shouldSkipRecord (opt_responseTypeFilterMap opts) (rd_DNSData rd) then SkipFilter
      else if opt_JSON opts then Output [ResponseData_JSON lib (opt_OmitRaw opts) rd]
      else if opt_Raw opts then Output [d_Raw (rd_DNSData rd)]
      else if length (opt_responseTypeFilterMap opts) > 0 then Output (outputFiltered opts lib domain rd)
      else if opt_hasRCodes opts
      then Output (outputResponseCode lib domain (d_StatusCodeRaw (rd_DNSData rd)))
      else Output (outputTyped opts lib domain rd))"

text \<open>Lines 631-633: a URL is reduced to its domain.\<close>

definition domainOf :: "Lib \<Rightarrow> string \<Rightarrow> string" where
  "domainOf lib item = (if isURL lib item then extractDomain lib item else item)"

text \<open>The body of the loop of \<^verbatim>\<open>worker\<close> for one item of \<^verbatim>\<open>workerchan\<close>.\<close>

definition worker_domain :: "Lib \<Rightarrow> Runner \<Rightarrow> string \<Rightarrow> outcome" where
  "worker_domain lib r item =
     (let opts = options r;
          domain = domainOf lib item
      in case QueryMultiple lib domain of
           None \<Rightarrow> SkipNilResponse
         | Some d \<Rightarrow>
             if d_Host d = [] \<or> d_TimestampIsZero d then SkipNoHostOrTimestamp
             else if rcodeRejected opts d then SkipRcode
             else
               (let rd = \<lparr>rd_DNSData = (if \<not> opt_Raw opts then d\<lparr>d_Raw := []\<rparr> else d),
                          rd_TraceData = None, rd_AXFRData = None, rd_IsCDNIP = False,
                          rd_CDNName = [], rd_ASN = None\<rparr>
                in case axfrStage opts (questionTypes r) lib domain (traceStage opts lib domain rd) of
                     None \<Rightarrow> SkipAXFR
                   | Some rd1 \<Rightarrow>
                       dispatch opts lib domain
                         (asnStage opts lib domain (cdnStage opts lib domain rd1))))"

text \<open>
  The effect of an outcome on the runner: \<^verbatim>\<open>storeDNSData\<close> (lines 907-913) writes the
  encoded answer under its host, unless the encoding fails; printed lines go to
  \<^verbatim>\<open>outputchan\<close>.
\<close>

definition storeDNSData :: "Codec \<Rightarrow> DNSData \<Rightarrow> Runner \<Rightarrow> error + Runner" where
  "storeDNSData cd dnsdata r =
     (case dnsdata_JSON cd dnsdata of
        Inl err \<Rightarrow> Inl err
      | Inr data \<Rightarrow> Inr (r\<lparr>hm := hm_Set (hm r) (d_Host dnsdata) data\<rparr>))"

definition worker_item :: "Lib \<Rightarrow> Codec \<Rightarrow> string \<Rightarrow> Runner \<Rightarrow> Runner" where
  "worker_item lib cd item r =
     (case worker_domain lib r item of
        Store dnsdata \<Rightarrow> (case storeDNSData cd dnsdata r of Inl err \<Rightarrow> r | Inr r' \<Rightarrow> r')
      | Output ls \<Rightarrow> r\<lparr>outputchan := outputchan r @ ls\<rparr>
      | _ \<Rightarrow> r)"

definition worker :: "Lib \<Rightarrow> Codec \<Rightarrow> Runner \<Rightarrow> Runner" where
  "worker lib cd r = fold (worker_item lib cd) (workerchan r) r"

text \<open>
  Lines 657-720 for an answer that passed the response-code check: the response data
  as \<^verbatim>\<open>worker\<close> hands it to the dispatch, or \<^verbatim>\<open>None\<close> when the zone-transfer
  check drops the entry.
\<close>

definition enrich :: "Lib \<Rightarrow> Runner \<Rightarrow> string \<Rightarrow> DNSData \<Rightarrow> ResponseData option" where
  "enrich lib r domain d =
     (case axfrStage (options r) (questionTypes r) lib domain
             (traceStage (options r) lib domain
                \<lparr>rd_DNSData = (if \<not> opt_Raw (options r) then d\<lparr>d_Raw := []\<rparr> else d),
                 rd_TraceData = None, rd_AXFRData = None, rd_IsCDNIP = False,
                 rd_CDNName = [], rd_ASN = None\<rparr>) of
        None \<Rightarrow> None
      | Some rd1 \<Rightarrow>
          Some (asnStage (options r) lib domain (cdnStage (options r) lib domain rd1)))"

text \<open>
  The ten calls of lines 751-760 in their order, each with the query type it prints and
  the records it passes to \<^verbatim>\<open>outputRecordType\<close>.
\<close>

definition filterRecords :: "Lib \<Rightarrow> DNSData \<Rightarrow> (string \<times> string list) list" where
  "filterRecords lib d =
     [(''A'', d_A d), (''AAAA'', d_AAAA d), (''CNAME'', d_CNAME d), (''MX'', d_MX d),
      (''NS'', d_NS d), (''SOA'', Dedupe lib (GetSOARecords lib d)), (''TXT'', d_TXT d),
      (''SRV'', d_SRV d), (''CAA'', d_CAA d), (''PTR'', d_PTR d)]"

subsection \<open>Records of a filter type\<close>

text \<open>
  The type names \<^verbatim>\<open>shouldSkipRecord\<close> has a case for, whether a filter entry is one
  of them, and whether an answer has a record of the type an entry names.
\<close>

definition filterTypeNames :: "string list" where
  "filterTypeNames = [''a'', ''aaaa'', ''cname'', ''ns'', ''txt'', ''mx'', ''soa'', ''srv'', ''ptr'', ''caa'']"

definition recognised :: "string \<Rightarrow> bool" where
  "recognised et \<longleftrightarrow> ToLower (TrimSpace et) \<in> set filterTypeNames"

definition hasRecordOfType :: "string \<Rightarrow> DNSData \<Rightarrow> bool" where
  "hasRecordOfType et d \<longleftrightarrow>
     (let t = ToLower (TrimSpace et) in
      t = ''a'' \<and> d_A d \<noteq> [] \<or> t = ''aaaa'' \<and> d_AAAA d \<noteq> [] \<or> t = ''cname'' \<and> d_CNAME d \<noteq> [] \<or>
      t = ''ns'' \<and> d_NS d \<noteq> [] \<or> t = ''txt'' \<and> d_TXT d \<noteq> [] \<or> t = ''mx'' \<and> d_MX d \<noteq> [] \<or>
      t = ''soa'' \<and> d_SOA d \<noteq> [] \<or> t = ''srv'' \<and> d_SRV d \<noteq> [] \<or> t = ''ptr'' \<and> d_PTR d \<noteq> [] \<or>
      t = ''caa'' \<and> d_CAA d \<noteq> [])"

text \<open>The entry reaches the dispatch of lines 721-814: none of the earlier checks drops it.\<close>

definition reachesDispatch :: "outcome \<Rightarrow> bool" where
  "reachesDispatch out \<longleftrightarrow>
     out \<noteq> SkipNilResponse \<and> out \<noteq> SkipNoHostOrTimestamp \<and> out \<noteq> SkipRcode \<and> out \<noteq> SkipAXFR"

subsection \<open>The hosts of an input as the specification words them\<close>

text \<open>
  The specification's Work Set of an input without expansion sources: the lines trimmed
  and lower-cased, the empty ones dropped, without duplicates.
\<close>

definition specHosts :: "string list \<Rightarrow> string list" where
  "specHosts S = remdups (filter (\<lambda>h. h \<noteq> []) (map (\<lambda>line. ToLower (TrimSpace line)) S))"

text \<open>The input holds no expansion source: no FUZZ pattern, no CIDR block, no ASN.\<close>

definition noExpansion :: "Env \<Rightarrow> string list \<Rightarrow> bool" where
  "noExpansion env S \<longleftrightarrow>
     list_all (\<lambda>line. \<not> Contains (normalize_str line) ''FUZZ'' \<and> \<not> IsCIDR env (normalize_str line) \<and>
                      \<not> IsASN env (normalize_str line)) S"

subsection \<open>Values for examples\<close>

text \<open>A runner right after construction: empty map, nothing sent on any channel.\<close>

definition newRunner :: "Options \<Rightarrow> Runner" where
  "newRunner opts =
     \<lparr>options = New_options opts, questionTypes = New_questionTypes opts, hm = [],
      wildcards = {}, workerchan = [], outputchan = [], tmpStdinFile = [],
      stats_requests = 0, stats_hosts = 0, stats_total = 0\<rparr>"

text \<open>
  An environment whose only file is \<^verbatim>\<open>hosts.txt\<close> with the given lines, without
  standard input; the example lines are host names, none of them a CIDR block or an ASN.
\<close>

definition fileEnv :: "string list \<Rightarrow> Env" where
  "fileEnv ls =
     \<lparr>FileExists = (\<lambda>f. f = ''hosts.txt''), HasStdin = False,
      GetTempFileName = Inr ''stdin.tmp'', os_Create = (\<lambda>f. None), io_Copy_stdin = (\<lambda>f. None),
      ReadFile = (\<lambda>f. if f = ''hosts.txt'' then Inr ls else Inl (Failure ''file does not exist'')),
      ReadFileWithReader = (\<lambda>d. Inr [d]),
      ScannerLines = (\<lambda>f. if f = ''hosts.txt'' then ls else []), StdinLines = [],
      argumentHasStdin = (\<lambda>a. a = ''-''), IsCIDR = (\<lambda>i. False), IsASN = (\<lambda>i. False),
      IPAddressesAsStream = (\<lambda>i. Inl (Failure ''no CIDR'')),
      GetIPAddressesAsStream = (\<lambda>i. Inl (Failure ''no ASN''))\<rparr>"

text \<open>
  An answer with the given A and CNAME records, and a codec that decodes exactly the
  byte strings of a table (every other byte string, the nil value among them, is an
  error) and encodes an answer as the bytes the table holds for it.
\<close>

definition answer :: "string \<Rightarrow> string list \<Rightarrow> string list \<Rightarrow> DNSData" where
  "answer host as cnames =
     \<lparr>d_Host = host, d_TimestampIsZero = False, d_HostsFile = False, d_StatusCodeRaw = 0,
      d_Raw = [], d_A = as, d_AAAA = [], d_CNAME = cnames, d_MX = [], d_NS = [], d_SOA = [],
      d_TXT = [], d_SRV = [], d_CAA = [], d_PTR = []\<rparr>"

definition tableCodec :: "(bytes \<times> DNSData) list \<Rightarrow> Codec" where
  "tableCodec t =
     \<lparr>json_Unmarshal =
        (\<lambda>v. case map_of t v of None \<Rightarrow> Inl (Failure ''invalid JSON'') | Some d \<Rightarrow> Inr d),
      dnsdata_Unmarshal =
        (\<lambda>v. case map_of t v of None \<Rightarrow> Inl (Failure ''invalid data'') | Some d \<Rightarrow> Inr d),
      dnsdata_JSON =
        (\<lambda>d. case map_of (map (\<lambda>(v, d'). (d', v)) t) d of
               None \<Rightarrow> Inl (Failure ''cannot encode'')
             | Some v \<Rightarrow> Inr v)\<rparr>"

text \<open>
  A Work Set after a wildcard-enabled first pass with the root \<^verbatim>\<open>test\<close>: four
  resolved hosts (\<^verbatim>\<open>m.test\<close> has a CNAME record only) and \<^verbatim>\<open>c.test\<close>, which
  never resolved and keeps its nil value. The wildcard workers have marked the root and
  \<^verbatim>\<open>w.test\<close>.
\<close>

definition wildCodec :: Codec where
  "wildCodec =
     tableCodec
       [(''J0'', answer ''test'' [''192.0.2.1''] []), (''J1'', answer ''a.test'' [''192.0.2.2''] []),
        (''J2'', answer ''w.test'' [''192.0.2.1''] []), (''J3'', answer ''m.test'' [] [''a.test''])]"

definition wildRunner :: Runner where
  "wildRunner =
     (newRunner (defaultOptions\<lparr>opt_WildcardDomain := ''test''\<rparr>))
       \<lparr>hm := [(''test'', ''J0''), (''a.test'', ''J1''), (''w.test'', ''J2''), (''m.test'', ''J3''),
               (''c.test'', [])],
        wildcards := {''test'', ''w.test''}\<rparr>"

text \<open>
  A DNS client that answers from a table and has no trace, zone transfer, CDN or ASN
  data; no item is a URL; colours are off; \<^verbatim>\<open>Dedupe\<close> keeps first occurrences.
\<close>

definition dedupeFirst :: "string list \<Rightarrow> string list" where
  "dedupeFirst xs = rev (remdups (rev xs))"

definition tableLib :: "(string \<times> DNSData) list \<Rightarrow> Lib" where
  "tableLib t =
     \<lparr>isURL = (\<lambda>i. False), extractDomain = (\<lambda>i. i), QueryMultiple = map_of t,
      Trace = (\<lambda>i. None), AXFR = (\<lambda>i. None), CdnCheck = (\<lambda>i. (False, [])), Lookup = (\<lambda>i. []),
      IsIP = (\<lambda>i. False), asnmap_GetData = (\<lambda>i. None), asnmap_GetCIDR = (\<lambda>rs. []),
      AsnResponse_String = (\<lambda>a. AsNumber a), ResponseData_JSON = (\<lambda>omit rd. d_Host (rd_DNSData rd)),
      GetSOARecords = (\<lambda>d. concat (map (\<lambda>s. [soa_NS s, soa_Mbox s]) (d_SOA d))),
      Dedupe = dedupeFirst, Merge = (\<lambda>ss. dedupeFirst (concat ss)),
      RcodeToString = [0 \<mapsto> ''NOERROR'', 3 \<mapsto> ''NXDOMAIN''],
      Magenta = (\<lambda>x. x), Green = (\<lambda>x. x)\<rparr>"

text \<open>
  Four answers: \<^verbatim>\<open>a.test\<close> with an A record, \<^verbatim>\<open>b.test\<close> with the response code
  3 (NXDOMAIN) and no record, \<^verbatim>\<open>h.test\<close> from the hosts file, and \<^verbatim>\<open>d.test\<close> with
  an A and an AAAA record.
\<close>

definition exampleLib :: Lib where
  "exampleLib =
     tableLib
       [(''a.test'', answer ''a.test'' [''192.0.2.1''] []),
        (''b.test'', (answer ''b.test'' [] [])\<lparr>d_StatusCodeRaw := 3\<rparr>),
        (''h.test'', (answer ''h.test'' [''192.0.2.7''] [])\<lparr>d_HostsFile := True\<rparr>),
        (''d.test'', (answer ''d.test'' [''192.0.2.1''] [])\<lparr>d_AAAA := [''2001:db8::1'']\<rparr>)]"

section \<open>Theorems\<close>

lemma switchTypes_noSwitch: "noSwitch opts \<Longrightarrow> switchTypes opts = []"
  by (simp add: noSwitch_def switchTypes_def)

lemma switchTypes_empty_iff: "switchTypes opts = [] \<longleftrightarrow> noSwitch opts"
  by (auto simp: noSwitch_def switchTypes_def)

subsection \<open>Question types\<close>

text \<open>
  C3 (as stated, refuted): the claim says that the question types are exactly {A} whenever
  wildcard filtering is requested. With the AAAA switch on and a wildcard domain
  configured, \<^verbatim>\<open>New\<close> yields AAAA followed by A.
\<close>

theorem C3_wildcard_keeps_switches:
  "opt_WildcardDomain (defaultOptions\<lparr>opt_AAAA := True, opt_WildcardDomain := ''example.com''\<rparr>) \<noteq> [] \<and>
   New_questionTypes (defaultOptions\<lparr>opt_AAAA := True, opt_WildcardDomain := ''example.com''\<rparr>)
     = [TypeAAAA, TypeA] \<and>
   set (New_questionTypes (defaultOptions\<lparr>opt_AAAA := True, opt_WildcardDomain := ''example.com''\<rparr>))
     \<noteq> {TypeA}"
  by (simp add: New_questionTypes_def switchTypes_def defaultOptions_def)

text \<open>
  C3 (amended): when no record-type switch is enabled the question types are exactly [A];
  when wildcard filtering is requested they are the types of the enabled switches followed
  by A, so A is always among them, and as a set they are {A} exactly when no switch other
  than A is enabled. In both cases \<^verbatim>\<open>New\<close> turns the A switch on.
\<close>

theorem C3_questionTypes_default:
  "(noSwitch opts \<longrightarrow> New_questionTypes opts = [TypeA]) \<and>
   (opt_WildcardDomain opts \<noteq> [] \<longrightarrow>
      New_questionTypes opts = switchTypes opts @ [TypeA] \<and>
      TypeA \<in> set (New_questionTypes opts) \<and>
      (set (New_questionTypes opts) = {TypeA} \<longleftrightarrow> set (switchTypes opts) \<subseteq> {TypeA})) \<and>
   (noSwitch opts \<or> opt_WildcardDomain opts \<noteq> [] \<longrightarrow> opt_A (New_options opts))"
proof (intro conjI impI)
  assume "noSwitch opts"
  then show "New_questionTypes opts = [TypeA]"
    by (simp add: New_questionTypes_def switchTypes_noSwitch)
next
  assume w: "opt_WildcardDomain opts \<noteq> []"
  then show eq: "New_questionTypes opts = switchTypes opts @ [TypeA]"
    by (simp add: New_questionTypes_def)
  then show "TypeA \<in> set (New_questionTypes opts)"
    by simp
  from eq show "set (New_questionTypes opts) = {TypeA} \<longleftrightarrow> set (switchTypes opts) \<subseteq> {TypeA}"
    by auto
next
  assume "noSwitch opts \<or> opt_WildcardDomain opts \<noteq> []"
  then show "opt_A (New_options opts)"
    by (auto simp: New_options_def switchTypes_empty_iff)
qed

theorem C3_questionTypes_default_witness:
  "noSwitch defaultOptions \<and> New_questionTypes defaultOptions = [TypeA] \<and>
   opt_A (New_options defaultOptions) \<and>
   New_questionTypes (defaultOptions\<lparr>opt_A := True, opt_WildcardDomain := ''example.com''\<rparr>)
     = [TypeA, TypeA] \<and>
   set (New_questionTypes (defaultOptions\<lparr>opt_A := True, opt_WildcardDomain := ''example.com''\<rparr>))
     = {TypeA}"
proof -
  have n: "noSwitch defaultOptions"
    by (simp add: noSwitch_def defaultOptions_def)
  have w: "opt_WildcardDomain (defaultOptions\<lparr>opt_A := True, opt_WildcardDomain := ''example.com''\<rparr>) \<noteq> []"
    by simp
  have s: "switchTypes (defaultOptions\<lparr>opt_A := True, opt_WildcardDomain := ''example.com''\<rparr>) = [TypeA]"
    by (simp add: switchTypes_def defaultOptions_def)
  show ?thesis
    using n w s C3_questionTypes_default [of defaultOptions]
      C3_questionTypes_default [of "defaultOptions\<lparr>opt_A := True, opt_WildcardDomain := ''example.com''\<rparr>"]
    by simp
qed

subsection \<open>The resumed scan\<close>

lemma InputWorker_item_resume:
  assumes "opt_resumeCfg (options r) = Some cfg"
  shows "opt_resumeCfg (options (InputWorker_item item r)) =
           Some (cfg\<lparr>current := item, currentIndex := currentIndex cfg + 1\<rparr>)"
    and "workerchan (InputWorker_item item r) =
           (if currentIndex cfg + 1 \<le> Index cfg then workerchan r else workerchan r @ [item])"
    and "hm (InputWorker_item item r) = hm r"
  using assms by (simp_all add: InputWorker_item_def Let_def)

lemma InputWorker_fold_resume:
  "opt_resumeCfg (options r) = Some cfg \<Longrightarrow>
   workerchan (fold InputWorker_item xs r) =
     workerchan r @ drop (nat (Index cfg - currentIndex cfg)) xs"
proof (induction xs arbitrary: r cfg)
  case Nil
  then show ?case by simp
next
  case (Cons x xs)
  let ?cfg = "cfg\<lparr>current := x, currentIndex := currentIndex cfg + 1\<rparr>"
  have c: "opt_resumeCfg (options (InputWorker_item x r)) = Some ?cfg"
    using Cons.prems by (rule InputWorker_item_resume(1))
  have w: "workerchan (InputWorker_item x r) =
           (if currentIndex cfg + 1 \<le> Index cfg then workerchan r else workerchan r @ [x])"
    using Cons.prems by (rule InputWorker_item_resume(2))
  have "workerchan (fold InputWorker_item (x # xs) r) =
        workerchan (InputWorker_item x r) @ drop (nat (Index ?cfg - currentIndex ?cfg)) xs"
    using Cons.IH [OF c] by simp
  also have "\<dots> = workerchan r @ drop (nat (Index cfg - currentIndex cfg)) (x # xs)"
  proof (cases "currentIndex cfg + 1 \<le> Index cfg")
    case True
    then have "nat (Index cfg - currentIndex cfg) = Suc (nat (Index cfg - (currentIndex cfg + 1)))"
      by simp
    with True w show ?thesis by simp
  next
    case False
    then have "nat (Index cfg - currentIndex cfg) = 0" "nat (Index cfg - (currentIndex cfg + 1)) = 0"
      by simp_all
    with False w show ?thesis by simp
  qed
  finally show ?case .
qed

text \<open>
  C4: with a resume cursor of index I (at least 0) whose running index starts at 0 and an
  empty worker channel, the scan sends exactly the keys after the first I of the scan
  order: the first host sent is the one at position I + 1 (index I counting from 0), and
  nothing is sent when I is at or beyond the number of keys.
\<close>

theorem C4_resume_skips_index:
  assumes "opt_resumeCfg (options r) = Some cfg"
    and "currentIndex cfg = 0" and "0 \<le> Index cfg" and "workerchan r = []"
  shows "workerchan (InputWorker r) = drop (nat (Index cfg)) (map fst (hm r)) \<and>
         (Index cfg < int (length (hm r)) \<longrightarrow>
            workerchan (InputWorker r) \<noteq> [] \<and>
            hd (workerchan (InputWorker r)) = map fst (hm r) ! nat (Index cfg)) \<and>
         (int (length (hm r)) \<le> Index cfg \<longrightarrow> workerchan (InputWorker r) = [])"
proof -
  have eq: "workerchan (InputWorker r) = drop (nat (Index cfg)) (map fst (hm r))"
    using InputWorker_fold_resume [OF assms(1), of "map fst (hm r)"] assms(2,4)
    by (simp add: InputWorker_def)
  show ?thesis
  proof (intro conjI impI)
    show "workerchan (InputWorker r) = drop (nat (Index cfg)) (map fst (hm r))" by (rule eq)
  next
    assume "Index cfg < int (length (hm r))"
    then have lt: "nat (Index cfg) < length (map fst (hm r))" using assms(3) by simp
    then show "workerchan (InputWorker r) \<noteq> []" using eq by simp
    from lt show "hd (workerchan (InputWorker r)) = map fst (hm r) ! nat (Index cfg)"
      unfolding eq by (simp add: hd_drop_conv_nth)
  next
    assume "int (length (hm r)) \<le> Index cfg"
    then show "workerchan (InputWorker r) = []" using eq by simp
  qed
qed

theorem C4_resume_skips_index_witness:
  "workerchan (InputWorker ((newRunner defaultOptions)
      \<lparr>options := defaultOptions\<lparr>opt_resumeCfg :=
          Some \<lparr>Index = 1, ResumeFrom = ''a.test'', current = [], currentIndex = 0\<rparr>\<rparr>,
       hm := [(''a.test'', []), (''b.test'', []), (''c.test'', [])]\<rparr>))
     = [''b.test'', ''c.test'']"
  using C4_resume_skips_index [of "(newRunner defaultOptions)
      \<lparr>options := defaultOptions\<lparr>opt_resumeCfg :=
          Some \<lparr>Index = 1, ResumeFrom = ''a.test'', current = [], currentIndex = 0\<rparr>\<rparr>,
       hm := [(''a.test'', []), (''b.test'', []), (''c.test'', [])]\<rparr>"
     "\<lparr>Index = 1, ResumeFrom = ''a.test'', current = [], currentIndex = 0\<rparr>"]
  by (simp add: newRunner_def)

subsection \<open>Input without expansion sources\<close>

lemma hm_Get_None_iff: "hm_Get m k = None \<longleftrightarrow> k \<notin> fst ` set m"
  by (simp add: hm_Get_def map_of_eq_None_iff)

lemma hm_Set_fresh: "k \<notin> fst ` set m \<Longrightarrow> hm_Set m k v = m @ [(k, v)]"
  by (induction m) auto

lemma addHosts_single:
  "addHostsToHMapFromList [item] m =
     (if item \<in> fst ` set m then (0, m) else (1, m @ [(item, [])]))"
proof (cases "hm_Get m item")
  case None
  then have "item \<notin> fst ` set m" by (simp add: hm_Get_None_iff)
  with None show ?thesis by (simp add: hm_Set_fresh)
next
  case (Some v)
  then have "item \<in> fst ` set m" using hm_Get_None_iff [of m item] by auto
  with Some show ?thesis by simp
qed

lemma prepareInput_items_plain:
  assumes "opt_WordList opts = []"
  shows "noExpansion env S \<Longrightarrow>
     \<exists>ks. prepareInput_items env opts tmp S (n, m) = Inr (n + int (length ks), m @ map (\<lambda>k. (k, [])) ks) \<and>
          distinct ks \<and> set ks = set (map normalize_str S) - fst ` set m"
proof (induction S arbitrary: n m)
  case Nil
  then show ?case by simp
next
  case (Cons line S)
  let ?item = "normalize_str line"
  from Cons.prems have here: "\<not> Contains ?item ''FUZZ''" "\<not> IsCIDR env ?item" "\<not> IsASN env ?item"
    and rest: "noExpansion env S"
    by (simp_all add: noExpansion_def)
  show ?case
  proof (cases "?item \<in> fst ` set m")
    case True
    have step: "prepareInput_items env opts tmp (line # S) (n, m) = prepareInput_items env opts tmp S (n, m)"
      using here assms True by (simp add: addHosts_single del: addHostsToHMapFromList.simps)
    from Cons.IH [OF rest, of n m] obtain ks where
      ks: "prepareInput_items env opts tmp S (n, m) = Inr (n + int (length ks), m @ map (\<lambda>k. (k, [])) ks)"
        "distinct ks" "set ks = set (map normalize_str S) - fst ` set m"
      by blast
    have "set ks = set (map normalize_str (line # S)) - fst ` set m"
      using ks(3) True by auto
    with ks(1,2) step show ?thesis by auto
  next
    case False
    let ?m = "m @ [(?item, [])]"
    have step: "prepareInput_items env opts tmp (line # S) (n, m) = prepareInput_items env opts tmp S (n + 1, ?m)"
      using here assms False by (simp add: addHosts_single del: addHostsToHMapFromList.simps)
    from Cons.IH [OF rest, of "n + 1" ?m] obtain ks where
      ks: "prepareInput_items env opts tmp S (n + 1, ?m) = Inr (n + 1 + int (length ks), ?m @ map (\<lambda>k. (k, [])) ks)"
        "distinct ks" "set ks = set (map normalize_str S) - fst ` set ?m"
      by blast
    let ?ks = "?item # ks"
    have a: "prepareInput_items env opts tmp (line # S) (n, m) = Inr (n + int (length ?ks), m @ map (\<lambda>k. (k, [])) ?ks)"
      using step ks(1) by simp
    have b: "distinct ?ks" using ks(2,3) by auto
    have c: "set ?ks = set (map normalize_str (line # S)) - fst ` set m"
      using ks(3) False by auto
    from a b c show ?thesis by blast
  qed
qed

lemma copyStdin_fields:
  "copyStdin env r = Inr r1 \<Longrightarrow> options r1 = options r \<and> hm r1 = hm r \<and> questionTypes r1 = questionTypes r"
  by (auto simp: copyStdin_def split: if_splits sum.splits option.splits)

text \<open>
  C2 (as stated, refuted): the claim says the Work Set holds the lower-cased, non-empty
  hosts. The source only trims: the line \<^verbatim>\<open>A.test\<close> is stored with its capital letter
  and a line of two spaces is stored as the empty host, while the specification's set for
  this input is the single host \<^verbatim>\<open>a.test\<close>.
\<close>

theorem C2_case_and_empty_kept:
  "noExpansion (fileEnv [''A.test'', ''  '']) [''A.test'', ''  ''] \<and>
   map_sum id hm (prepareInput (fileEnv [''A.test'', ''  ''])
      (newRunner (defaultOptions\<lparr>opt_Hosts := ''hosts.txt''\<rparr>)))
     = Inr [(''A.test'', []), ('''', [])] \<and>
   specHosts [''A.test'', ''  ''] = [''a.test''] \<and>
   set (map fst [(''A.test'', []), ('''', [])]) \<noteq> set (specHosts [''A.test'', ''  ''])"
  by (simp add: noExpansion_def normalize_str_def TrimSpace_def isSpace_def fileEnv_def
      prepareInput_def copyStdin_def inputLines_def newRunner_def New_options_def
      New_questionTypes_def switchTypes_def defaultOptions_def hm_Get_def specHosts_def
      ToLower_def toLowerChar_def)

text \<open>
  C2 (amended): for an input without expansion sources (no word list configured, no line
  that is a FUZZ pattern, a CIDR block or an ASN) read into an empty Work Set,
  \<^verbatim>\<open>prepareInput\<close> succeeds and the keys of the Work Set are exactly the
  whitespace-trimmed lines of the input, each once, every one with a nil value. Case is
  kept, and a line that trims to the empty string is kept as the empty host.
\<close>

theorem C2_plain_input_work_set:
  assumes "copyStdin env r = Inr r1" and "inputLines env r1 = Inr S"
    and "opt_WordList (options r) = []" and "noExpansion env S" and "hm r = []"
  shows "\<exists>r'. prepareInput env r = Inr r' \<and>
           set (map fst (hm r')) = set (map normalize_str S) \<and>
           distinct (map fst (hm r')) \<and>
           list_all (\<lambda>(k, v). v = []) (hm r')"
proof -
  from assms(1) have f: "options r1 = options r" "hm r1 = hm r"
    by (simp_all add: copyStdin_fields)
  from prepareInput_items_plain [of "options r1" env S "tmpStdinFile r1" 0 "[]"] assms(3,4) f(1)
  obtain ks where ks:
    "prepareInput_items env (options r1) (tmpStdinFile r1) S (0, []) = Inr (int (length ks), map (\<lambda>k. (k, [])) ks)"
    "distinct ks" "set ks = set (map normalize_str S)"
    by auto
  let ?m = "map (\<lambda>k. (k, [])) ks"
  let ?r = "if opt_ShowStatistics (options r1)
            then r1\<lparr>hm := ?m, stats_requests := 0, stats_hosts := int (length ks),
                     stats_total := int (length ks) * int (length (questionTypes r1))\<rparr>
            else r1\<lparr>hm := ?m\<rparr>"
  have p: "prepareInput env r = Inr ?r"
    using assms(1,2,5) f(2) ks(1) by (simp add: prepareInput_def)
  have h: "hm ?r = ?m" by simp
  have k: "map fst ?m = ks" by (simp add: comp_def)
  have v: "list_all (\<lambda>(k, v). v = []) ?m" by (simp add: list_all_iff)
  have "set (map fst (hm ?r)) = set (map normalize_str S)"
    unfolding h k by (rule ks(3))
  moreover have "distinct (map fst (hm ?r))"
    unfolding h k by (rule ks(2))
  moreover have "list_all (\<lambda>(k, v). v = []) (hm ?r)"
    unfolding h by (rule v)
  ultimately show ?thesis
    using p by blast
qed

theorem C2_plain_input_work_set_witness:
  "noExpansion (fileEnv [''b.test'', '' a.test '', ''b.test'']) [''b.test'', '' a.test '', ''b.test''] \<and>
   (\<exists>r'. prepareInput (fileEnv [''b.test'', '' a.test '', ''b.test''])
            (newRunner (defaultOptions\<lparr>opt_Hosts := ''hosts.txt''\<rparr>)) = Inr r' \<and>
         set (map fst (hm r')) = {''a.test'', ''b.test''} \<and>
         distinct (map fst (hm r')))"
proof -
  let ?S = "[''b.test'', '' a.test '', ''b.test'']"
  let ?r = "newRunner (defaultOptions\<lparr>opt_Hosts := ''hosts.txt''\<rparr>)"
  have a: "copyStdin (fileEnv ?S) ?r = Inr ?r"
    by (simp add: copyStdin_def fileEnv_def)
  have b: "inputLines (fileEnv ?S) ?r = Inr ?S"
    by (simp add: inputLines_def fileEnv_def newRunner_def New_options_def defaultOptions_def)
  have c: "opt_WordList (options ?r) = []"
    by (simp add: newRunner_def New_options_def defaultOptions_def)
  have d: "noExpansion (fileEnv ?S) ?S"
    by (simp add: noExpansion_def normalize_str_def TrimSpace_def isSpace_def fileEnv_def)
  have e: "hm ?r = []"
    by (simp add: newRunner_def)
  have n: "set (map normalize_str ?S) = {''a.test'', ''b.test''}"
    by (auto simp: normalize_str_def TrimSpace_def isSpace_def)
  show ?thesis
    using C2_plain_input_work_set [OF a b c d e] d unfolding n by blast
qed

subsection \<open>Stream input without a source\<close>

text \<open>
  C9: in stream mode, when the hosts file does not exist and there is no standard input,
  the scanner stays nil and \<^verbatim>\<open>InputWorkerStream\<close> panics on its first
  \<^verbatim>\<open>sc.Scan()\<close>; the non-stream path (\<^verbatim>\<open>prepareInput\<close>, with no \<^verbatim>\<open>Domains\<close>
  argument and a hosts argument that does not name standard input) returns the error
  "hosts file or stdin not provided" in the same situation.
\<close>

theorem C9_stream_nil_scanner_panics:
  assumes "\<not> FileExists env (opt_Hosts (options r))" and "\<not> HasStdin env"
  shows "InputWorkerStream env r = Inl NilPointerDereference \<and>
         (opt_Domains (options r) = [] \<and> \<not> argumentHasStdin env (opt_Hosts (options r)) \<longrightarrow>
            prepareInput env r = Inl (Failure ''hosts file or stdin not provided''))"
  using assms
  by (simp add: InputWorkerStream_def streamScanner_def prepareInput_def copyStdin_def inputLines_def)

theorem C9_stream_nil_scanner_panics_witness:
  "InputWorkerStream (fileEnv []) (newRunner (defaultOptions\<lparr>opt_Hosts := ''missing.txt''\<rparr>))
     = Inl NilPointerDereference \<and>
   prepareInput (fileEnv []) (newRunner (defaultOptions\<lparr>opt_Hosts := ''missing.txt''\<rparr>))
     = Inl (Failure ''hosts file or stdin not provided'')"
  using C9_stream_nil_scanner_panics [of "fileEnv []"
      "newRunner (defaultOptions\<lparr>opt_Hosts := ''missing.txt''\<rparr>)"]
  by (simp add: fileEnv_def newRunner_def New_options_def defaultOptions_def)

subsection \<open>The scan that groups hosts by IP\<close>

lemma hostsOf_addIP:
  "set (hostsOf (addIP k a sc) b) = set (hostsOf sc b) \<union> (if b = a then {k} else {})"
  by (auto simp: hostsOf_def addIP_def split: option.splits if_splits)

lemma listIPs_addIP:
  "dom (ipDomain sc) = set (listIPs sc) \<Longrightarrow>
   set (listIPs (addIP k a sc)) = insert a (set (listIPs sc)) \<and>
   dom (ipDomain (addIP k a sc)) = set (listIPs (addIP k a sc))"
  by (auto simp: addIP_def split: option.splits)

lemma hostsOf_outside:
  "dom (ipDomain sc) = set (listIPs sc) \<Longrightarrow> a \<notin> set (listIPs sc) \<Longrightarrow> hostsOf sc a = []"
  by (auto simp: hostsOf_def split: option.splits)

lemma allHosts_addIP:
  assumes "dom (ipDomain sc) = set (listIPs sc)"
  shows "allHosts (addIP k a sc) = insert k (allHosts sc)"
proof -
  have l: "set (listIPs (addIP k a sc)) = insert a (set (listIPs sc))"
    using listIPs_addIP [OF assms] by simp
  have "allHosts (addIP k a sc) = (\<Union>b\<in>insert a (set (listIPs sc)). set (hostsOf sc b) \<union> (if b = a then {k} else {}))"
    unfolding allHosts_def l by (simp only: hostsOf_addIP)
  also have "\<dots> = insert k (set (hostsOf sc a) \<union> allHosts sc)"
    unfolding allHosts_def by (auto split: if_splits)
  also have "set (hostsOf sc a) \<union> allHosts sc = allHosts sc"
  proof (cases "a \<in> set (listIPs sc)")
    case True
    then show ?thesis unfolding allHosts_def by auto
  next
    case False
    then show ?thesis using hostsOf_outside [OF assms] by simp
  qed
  finally show ?thesis .
qed

lemma fold_addIP:
  "dom (ipDomain sc) = set (listIPs sc) \<Longrightarrow>
   dom (ipDomain (fold (addIP k) as sc)) = set (listIPs (fold (addIP k) as sc)) \<and>
   allHosts (fold (addIP k) as sc) = allHosts sc \<union> (if as = [] then {} else {k})"
proof (induction as arbitrary: sc)
  case Nil
  then show ?case by simp
next
  case (Cons a as)
  have d: "dom (ipDomain (addIP k a sc)) = set (listIPs (addIP k a sc))"
    using listIPs_addIP [OF Cons.prems] by simp
  from Cons.IH [OF d] allHosts_addIP [OF Cons.prems, of k a]
  show ?case by auto
qed

lemma scanItem_inv:
  assumes "dom (ipDomain sc) = set (listIPs sc)"
  shows "dom (ipDomain (scanItem cd (k, v) sc)) = set (listIPs (scanItem cd (k, v) sc)) \<and>
         allHosts (scanItem cd (k, v) sc) =
           allHosts sc \<union> (if (case json_Unmarshal cd v of Inl err \<Rightarrow> False | Inr dnsdata \<Rightarrow> d_A dnsdata \<noteq> []) then {k} else {})"
proof (cases "json_Unmarshal cd v")
  case (Inl e)
  then show ?thesis using assms by (simp add: scanItem_def)
next
  case (Inr d)
  then show ?thesis using fold_addIP [OF assms, of k "d_A d"] by (simp add: scanItem_def)
qed

lemma fold_scanItem:
  "dom (ipDomain sc) = set (listIPs sc) \<Longrightarrow>
   allHosts (fold (scanItem cd) m sc) = allHosts sc \<union> {h. hasARecord cd m h}"
proof (induction m arbitrary: sc)
  case Nil
  then show ?case by (simp add: hasARecord_def)
next
  case (Cons kv m)
  obtain k v where kv: "kv = (k, v)" by (cases kv)
  from scanItem_inv [OF Cons.prems, of cd k v]
  have d: "dom (ipDomain (scanItem cd (k, v) sc)) = set (listIPs (scanItem cd (k, v) sc))"
    and a: "allHosts (scanItem cd (k, v) sc) =
           allHosts sc \<union> (if (case json_Unmarshal cd v of Inl err \<Rightarrow> False | Inr dnsdata \<Rightarrow> d_A dnsdata \<noteq> []) then {k} else {})"
    by simp_all
  have "allHosts (fold (scanItem cd) (kv # m) sc) =
        allHosts (scanItem cd (k, v) sc) \<union> {h. hasARecord cd m h}"
    using Cons.IH [OF d] kv by simp
  also have "\<dots> = allHosts sc \<union> {h. hasARecord cd (kv # m) h}"
    unfolding a kv by (auto simp: hasARecord_def)
  finally show ?case .
qed

lemma allHosts_buildIPDomain: "allHosts (buildIPDomain cd m) = {h. hasARecord cd m h}"
  using fold_scanItem [of "\<lparr>ipDomain = Map.empty, listIPs = []\<rparr>" cd m]
  by (simp add: buildIPDomain_def allHosts_def)

subsection \<open>The final pass of the wildcard filter\<close>

lemma step_seen:
  "fp_seen (finalPass_host cd r x st) = (if keepHost r x then insert x (fp_seen st) else fp_seen st)"
  by (auto simp: finalPass_host_def emitHost_def keepHost_def Let_def split: sum.splits)

lemma step_emitted:
  "emitted (finalPass_host cd r x st) h =
     emitted st h + (if x = h \<and> keepHost r h \<and> h \<notin> fp_seen st \<and> lookupSucceeds cd r h then 1 else 0)"
  by (auto simp: finalPass_host_def emitHost_def keepHost_def lookupSucceeds_def emitted_def Let_def
      split: sum.splits)

lemma step_removed:
  "fp_seenRemovedSubdomains (finalPass_host cd r x st) =
     (if keepHost r x then fp_seenRemovedSubdomains st else insert x (fp_seenRemovedSubdomains st))"
  by (auto simp: finalPass_host_def emitHost_def keepHost_def Let_def split: sum.splits)

lemma step_num:
  "fp_numRemovedSubdomains (finalPass_host cd r x st) =
     fp_numRemovedSubdomains st +
       (if \<not> keepHost r x \<and> x \<notin> fp_seenRemovedSubdomains st then 1 else 0)"
  by (auto simp: finalPass_host_def emitHost_def keepHost_def Let_def split: sum.splits)

lemma fold_seen:
  "fp_seen (fold (finalPass_host cd r) xs st) = fp_seen st \<union> {h \<in> set xs. keepHost r h}"
  by (induction xs arbitrary: st) (auto simp: step_seen)

lemma fold_emitted:
  "emitted (fold (finalPass_host cd r) xs st) h =
     emitted st h +
       (if h \<in> set xs \<and> keepHost r h \<and> h \<notin> fp_seen st \<and> lookupSucceeds cd r h then 1 else 0)"
proof (induction xs arbitrary: st)
  case Nil
  then show ?case by simp
next
  case (Cons x xs)
  have "emitted (fold (finalPass_host cd r) (x # xs) st) h =
        emitted (finalPass_host cd r x st) h +
          (if h \<in> set xs \<and> keepHost r h \<and> h \<notin> fp_seen (finalPass_host cd r x st) \<and>
              lookupSucceeds cd r h then 1 else 0)"
    using Cons.IH [of "finalPass_host cd r x st"] by simp
  then show ?case
    by (simp add: step_emitted step_seen)
qed

lemma fold_removed:
  "fp_seenRemovedSubdomains (fold (finalPass_host cd r) xs st) =
     fp_seenRemovedSubdomains st \<union> {h \<in> set xs. \<not> keepHost r h}"
  by (induction xs arbitrary: st) (auto simp: step_removed)

lemma fold_num:
  "finite (fp_seenRemovedSubdomains st) \<Longrightarrow>
   fp_numRemovedSubdomains st = int (card (fp_seenRemovedSubdomains st)) \<Longrightarrow>
   fp_numRemovedSubdomains (fold (finalPass_host cd r) xs st) =
     int (card (fp_seenRemovedSubdomains (fold (finalPass_host cd r) xs st)))"
proof (induction xs arbitrary: st)
  case Nil
  then show ?case by simp
next
  case (Cons x xs)
  let ?st = "finalPass_host cd r x st"
  have f: "finite (fp_seenRemovedSubdomains ?st)"
    using Cons.prems(1) by (simp add: step_removed)
  have n: "fp_numRemovedSubdomains ?st = int (card (fp_seenRemovedSubdomains ?st))"
    using Cons.prems by (simp add: step_removed step_num insert_absorb)
  from Cons.IH [OF f n] show ?case by simp
qed

lemma fold_fold_concat: "fold (\<lambda>a. fold f (g a)) xs st = fold f (concat (map g xs)) st"
  by (induction xs arbitrary: st) simp_all

lemma finalPass_concat:
  "finalPass cd rangeOrder r sc =
     fold (finalPass_host cd r) (concat (map (\<lambda>a. rangeOrder (hostsOf sc a)) (listIPs sc)))
       \<lparr>fp_seen = {}, fp_seenRemovedSubdomains = {}, fp_numRemovedSubdomains = 0, fp_sent = []\<rparr>"
  by (simp add: finalPass_def fold_fold_concat)

lemma visited_hosts:
  "\<forall>xs. set (rangeOrder xs) = set xs \<Longrightarrow>
   set (concat (map (\<lambda>a. rangeOrder (hostsOf sc a)) (listIPs sc))) = allHosts sc"
  by (simp add: allHosts_def)

lemma finalPass_emitted:
  assumes "\<forall>xs. set (rangeOrder xs) = set xs"
  shows "emitted (finalPass cd rangeOrder r (buildIPDomain cd m)) h =
           (if hasARecord cd m h \<and> keepHost r h \<and> lookupSucceeds cd r h then 1 else 0)"
  unfolding finalPass_concat fold_emitted visited_hosts [OF assms] allHosts_buildIPDomain
  by (simp add: emitted_def)

lemma finalPass_removed:
  assumes "\<forall>xs. set (rangeOrder xs) = set xs"
  shows "fp_seenRemovedSubdomains (finalPass cd rangeOrder r (buildIPDomain cd m)) =
           {h. hasARecord cd m h \<and> \<not> keepHost r h}"
  unfolding finalPass_concat fold_removed visited_hosts [OF assms] allHosts_buildIPDomain
  by simp

lemma finalPass_num:
  "fp_numRemovedSubdomains (finalPass cd rangeOrder r sc) =
     int (card (fp_seenRemovedSubdomains (finalPass cd rangeOrder r sc)))"
  unfolding finalPass_concat by (rule fold_num) simp_all

lemma wildRunner_fields:
  "hm wildRunner = [(''test'', ''J0''), (''a.test'', ''J1''), (''w.test'', ''J2''), (''m.test'', ''J3''),
                    (''c.test'', [])]"
  "wildcards wildRunner = {''test'', ''w.test''}"
  "opt_WildcardDomain (options wildRunner) = ''test''"
  "opt_JSON (options wildRunner) = False"
  by (simp_all add: wildRunner_def newRunner_def New_options_def defaultOptions_def)

lemma wildRunner_hasARecord:
  "hasARecord wildCodec (hm wildRunner) ''test''"
  "hasARecord wildCodec (hm wildRunner) ''a.test''"
  "hasARecord wildCodec (hm wildRunner) ''w.test''"
  "\<not> hasARecord wildCodec (hm wildRunner) ''m.test''"
  "\<not> hasARecord wildCodec (hm wildRunner) ''c.test''"
  by (simp_all add: wildRunner_fields hasARecord_def wildCodec_def tableCodec_def answer_def)



text \<open>
  C10: the final pass sends a line for a host only if the Work Set stores, under that
  host, bytes that decode to an answer with at least one A record. A host without such a
  value (a CNAME-only answer, a nil value that does not decode) gets no line and is not
  among the removed subdomains, whose number is the size of \<^verbatim>\<open>seenRemovedSubdomains\<close>.
\<close>

theorem C10_no_A_record_neither_emitted_nor_counted:
  assumes "\<forall>xs. set (rangeOrder xs) = set xs"
  shows
    "(0 < emitted (finalPass cd rangeOrder r (buildIPDomain cd (hm r))) h \<longrightarrow>
        hasARecord cd (hm r) h) \<and>
     (\<not> hasARecord cd (hm r) h \<longrightarrow>
        emitted (finalPass cd rangeOrder r (buildIPDomain cd (hm r))) h = 0 \<and>
        h \<notin> fp_seenRemovedSubdomains (finalPass cd rangeOrder r (buildIPDomain cd (hm r)))) \<and>
     fp_numRemovedSubdomains (finalPass cd rangeOrder r (buildIPDomain cd (hm r))) =
       int (card (fp_seenRemovedSubdomains (finalPass cd rangeOrder r (buildIPDomain cd (hm r)))))"
proof -
  have e: "emitted (finalPass cd rangeOrder r (buildIPDomain cd (hm r))) h =
           (if hasARecord cd (hm r) h \<and> keepHost r h \<and> lookupSucceeds cd r h then 1 else 0)"
    using assms by (rule finalPass_emitted)
  have s: "fp_seenRemovedSubdomains (finalPass cd rangeOrder r (buildIPDomain cd (hm r))) =
           {h. hasARecord cd (hm r) h \<and> \<not> keepHost r h}"
    using assms by (rule finalPass_removed)
  have n: "fp_numRemovedSubdomains (finalPass cd rangeOrder r (buildIPDomain cd (hm r))) =
       int (card (fp_seenRemovedSubdomains (finalPass cd rangeOrder r (buildIPDomain cd (hm r)))))"
    by (rule finalPass_num)
  show ?thesis
    using n unfolding e s by simp
qed


theorem C10_no_A_record_neither_emitted_nor_counted_witness:
  "\<not> hasARecord wildCodec (hm wildRunner) ''m.test'' \<and>
   \<not> hasARecord wildCodec (hm wildRunner) ''c.test'' \<and>
   emitted (finalPass wildCodec rev wildRunner (buildIPDomain wildCodec (hm wildRunner))) ''m.test'' = 0 \<and>
   emitted (finalPass wildCodec rev wildRunner (buildIPDomain wildCodec (hm wildRunner))) ''c.test'' = 0 \<and>
   ''m.test'' \<notin> fp_seenRemovedSubdomains
      (finalPass wildCodec rev wildRunner (buildIPDomain wildCodec (hm wildRunner))) \<and>
   ''c.test'' \<notin> fp_seenRemovedSubdomains
      (finalPass wildCodec rev wildRunner (buildIPDomain wildCodec (hm wildRunner)))"
proof -
  have ro: "\<forall>xs::string list. set (rev xs) = set xs" by simp
  show ?thesis
    using C10_no_A_record_neither_emitted_nor_counted [OF ro, of wildCodec wildRunner "''m.test''"]
      C10_no_A_record_neither_emitted_nor_counted [OF ro, of wildCodec wildRunner "''c.test''"]
      wildRunner_hasARecord(4,5)
    by simp
qed

subsection \<open>The checks of the resolver worker\<close>

lemma dispatch_reaches: "reachesDispatch (dispatch opts lib domain rd)"
  by (simp add: dispatch_def reachesDispatch_def)

lemma worker_domain_resolved:
  assumes "QueryMultiple lib (domainOf lib item) = Some d"
    and "d_Host d \<noteq> []" and "\<not> d_TimestampIsZero d"
  shows "worker_domain lib r item =
     (if rcodeRejected (options r) d then SkipRcode
      else case axfrStage (options r) (questionTypes r) lib (domainOf lib item)
                  (traceStage (options r) lib (domainOf lib item)
                     \<lparr>rd_DNSData = (if \<not> opt_Raw (options r) then d\<lparr>d_Raw := []\<rparr> else d),
                      rd_TraceData = None, rd_AXFRData = None, rd_IsCDNIP = False,
                      rd_CDNName = [], rd_ASN = None\<rparr>) of
             None \<Rightarrow> SkipAXFR
           | Some rd1 \<Rightarrow>
               dispatch (options r) lib (domainOf lib item)
                 (asnStage (options r) lib (domainOf lib item)
                    (cdnStage (options r) lib (domainOf lib item) rd1)))"
  using assms by (simp add: worker_domain_def Let_def)

lemma rcodeRejected_iff:
  "rcodeRejected opts d \<longleftrightarrow> \<not> d_HostsFile d \<and> opt_rcodes opts \<noteq> {} \<and> d_StatusCodeRaw d \<notin> opt_rcodes opts"
  by (simp add: rcodeRejected_def)

text \<open>
  C7: for a resolved answer (a non-nil response with a host and a timestamp) and a
  non-empty response-code allow-list, the worker drops the entry at the response-code
  check exactly when the answer is not from the hosts file and its code is not in the
  list; an answer from the hosts file is never dropped by this check.
\<close>

theorem C7_rcode_allow_list:
  assumes "QueryMultiple lib (domainOf lib item) = Some d"
    and "d_Host d \<noteq> []" and "\<not> d_TimestampIsZero d" and "opt_rcodes (options r) \<noteq> {}"
  shows "(worker_domain lib r item = SkipRcode \<longleftrightarrow>
            \<not> d_HostsFile d \<and> d_StatusCodeRaw d \<notin> opt_rcodes (options r)) \<and>
         (d_HostsFile d \<longrightarrow> worker_domain lib r item \<noteq> SkipRcode)"
proof -
  have later: "worker_domain lib r item = SkipRcode \<longleftrightarrow> rcodeRejected (options r) d"
    unfolding worker_domain_resolved [OF assms(1-3)]
    using dispatch_reaches [of "options r" lib]
    by (auto simp: reachesDispatch_def split: option.splits)
  show ?thesis
    unfolding later using assms(4) by (simp add: rcodeRejected_iff)
qed

lemma axfrStage_None_iff:
  "axfrStage opts qts lib domain rd = None \<longleftrightarrow>
     opt_AXFR opts \<and> length qts = 1 \<and> \<not> opt_JSON opts \<and>
     (case AXFR lib domain of None \<Rightarrow> True | Some a \<Rightarrow> a = [])"
  by (auto simp: axfrStage_def Let_def split: option.splits)

lemma axfr_discard_iff:
  assumes "QueryMultiple lib (domainOf lib item) = Some d"
    and "d_Host d \<noteq> []" and "\<not> d_TimestampIsZero d" and "\<not> rcodeRejected (options r) d"
  shows "worker_domain lib r item = SkipAXFR \<longleftrightarrow>
           opt_AXFR (options r) \<and> length (questionTypes r) = 1 \<and> \<not> opt_JSON (options r) \<and>
           (case AXFR lib (domainOf lib item) of None \<Rightarrow> True | Some a \<Rightarrow> a = [])"
proof -
  let ?rd = "traceStage (options r) lib (domainOf lib item)
               \<lparr>rd_DNSData = (if \<not> opt_Raw (options r) then d\<lparr>d_Raw := []\<rparr> else d),
                rd_TraceData = None, rd_AXFRData = None, rd_IsCDNIP = False,
                rd_CDNName = [], rd_ASN = None\<rparr>"
  let ?ax = "axfrStage (options r) (questionTypes r) lib (domainOf lib item) ?rd"
  have "worker_domain lib r item = SkipAXFR \<longleftrightarrow> ?ax = None"
  proof (cases ?ax)
    case None
    then show ?thesis
      unfolding worker_domain_resolved [OF assms(1-3)] using assms(4) by simp
  next
    case (Some rd1)
    then show ?thesis
      unfolding worker_domain_resolved [OF assms(1-3)]
      using assms(4) dispatch_reaches [of "options r" lib "domainOf lib item"
          "asnStage (options r) lib (domainOf lib item) (cdnStage (options r) lib (domainOf lib item) rd1)"]
      by (simp add: reachesDispatch_def)
  qed
  then show ?thesis
    by (simp only: axfrStage_None_iff)
qed

lemma exampleLib_query:
  "QueryMultiple exampleLib ''a.test'' = Some (answer ''a.test'' [''192.0.2.1''] [])"
  "QueryMultiple exampleLib ''b.test'' = Some ((answer ''b.test'' [] [])\<lparr>d_StatusCodeRaw := 3\<rparr>)"
  "QueryMultiple exampleLib ''h.test'' = Some ((answer ''h.test'' [''192.0.2.7''] [])\<lparr>d_HostsFile := True\<rparr>)"
  "QueryMultiple exampleLib ''d.test'' = Some ((answer ''d.test'' [''192.0.2.1''] [])\<lparr>d_AAAA := [''2001:db8::1'']\<rparr>)"
  "domainOf exampleLib item = item"
  "AXFR exampleLib item = None"
  "RcodeToString exampleLib 3 = Some ''NXDOMAIN''"
  "Dedupe exampleLib xs = dedupeFirst xs"
  "Merge exampleLib ss = dedupeFirst (concat ss)"
  "GetSOARecords exampleLib dd = concat (map (\<lambda>s. [soa_NS s, soa_Mbox s]) (d_SOA dd))"
  by (simp_all add: exampleLib_def tableLib_def domainOf_def)

lemmas worker_eval =
  worker_domain_def Let_def exampleLib_query newRunner_def New_options_def New_questionTypes_def
  switchTypes_def defaultOptions_def rcodeRejected_def axfrStage_def traceStage_def cdnStage_def
  asnStage_def dispatch_def outputTyped_def outputFiltered_def switchRecords_def
  outputRecordType_def outputResponseCode_def detailsOf_def answer_def dedupeFirst_def
  allParsedRecords_def

text \<open>
  C6 (the code at the failing input): with the AAAA switch and zone transfer enabled, the
  configured question types are [AAAA], so AXFR is not the only configured query type;
  the transfer returns nothing and the output is not JSON. The worker drops the resolved
  entry (the test of line 685 is on the number of question types), where the claim lets
  it proceed to dispatch; without zone transfer the same entry is printed.
\<close>

theorem C6_single_type_with_axfr_discards:
  "switchTypes (defaultOptions\<lparr>opt_AAAA := True, opt_AXFR := True\<rparr>) = [TypeAAAA] \<and>
   questionTypes (newRunner (defaultOptions\<lparr>opt_AAAA := True, opt_AXFR := True\<rparr>)) = [TypeAAAA] \<and>
   worker_domain exampleLib (newRunner (defaultOptions\<lparr>opt_AAAA := True, opt_AXFR := True\<rparr>)) ''d.test''
     = SkipAXFR \<and>
   worker_domain exampleLib (newRunner (defaultOptions\<lparr>opt_AAAA := True\<rparr>)) ''d.test''
     = Output [''d.test'']"
  by (simp add: worker_eval)


lemma rcode_example_output:
  "worker_domain exampleLib (newRunner (defaultOptions\<lparr>opt_rcodes := {3}, opt_hasRCodes := True\<rparr>)) ''b.test''
     = Output [''b.test [NXDOMAIN]'']"
  by (simp add: worker_eval)

theorem C7_rcode_allow_list_witness:
  "worker_domain exampleLib (newRunner (defaultOptions\<lparr>opt_rcodes := {3}, opt_hasRCodes := True\<rparr>)) ''a.test''
     = SkipRcode \<and>
   worker_domain exampleLib (newRunner (defaultOptions\<lparr>opt_rcodes := {3}, opt_hasRCodes := True\<rparr>)) ''b.test''
     = Output [''b.test [NXDOMAIN]''] \<and>
   worker_domain exampleLib (newRunner (defaultOptions\<lparr>opt_rcodes := {3}, opt_hasRCodes := True\<rparr>)) ''h.test''
     \<noteq> SkipRcode"
proof -
  let ?r = "newRunner (defaultOptions\<lparr>opt_rcodes := {3}, opt_hasRCodes := True\<rparr>)"
  have rc: "opt_rcodes (options ?r) = {3}"
    by (simp add: newRunner_def New_options_def)
  then have ne: "opt_rcodes (options ?r) \<noteq> {}" by simp
  show ?thesis
    using C7_rcode_allow_list [of exampleLib "''a.test''" _ ?r, OF _ _ _ ne]
      C7_rcode_allow_list [of exampleLib "''h.test''" _ ?r, OF _ _ _ ne] rcode_example_output
    unfolding rc by (simp add: exampleLib_query answer_def)
qed

subsection \<open>The response-type filter\<close>

lemma shouldSkipRecord_step:
  "shouldSkipRecord (et # ets) d =
     (if recognised et then hasRecordOfType et d \<or> shouldSkipRecord ets d else False)"
proof -
  define t where "t = ToLower (TrimSpace et)"
  define p1 where "p1 \<longleftrightarrow> t = ''a''"
  define p2 where "p2 \<longleftrightarrow> t = ''aaaa''"
  define p3 where "p3 \<longleftrightarrow> t = ''cname''"
  define p4 where "p4 \<longleftrightarrow> t = ''ns''"
  define p5 where "p5 \<longleftrightarrow> t = ''txt''"
  define p6 where "p6 \<longleftrightarrow> t = ''mx''"
  define p7 where "p7 \<longleftrightarrow> t = ''soa''"
  define p8 where "p8 \<longleftrightarrow> t = ''srv''"
  define p9 where "p9 \<longleftrightarrow> t = ''ptr''"
  define p10 where "p10 \<longleftrightarrow> t = ''caa''"
  note ps = p1_def p2_def p3_def p4_def p5_def p6_def p7_def p8_def p9_def p10_def
  have s: "shouldSkipRecord (et # ets) d =
      (if p1 then (if length (d_A d) > 0 then True else shouldSkipRecord ets d)
      else if p2 then (if length (d_AAAA d) > 0 then True else shouldSkipRecord ets d)
      else if p3 then (if length (d_CNAME d) > 0 then True else shouldSkipRecord ets d)
      else if p4 then (if length (d_NS d) > 0 then True else shouldSkipRecord ets d)
      else if p5 then (if length (d_TXT d) > 0 then True else shouldSkipRecord ets d)
      else if p6 then (if length (d_MX d) > 0 then True else shouldSkipRecord ets d)
      else if p7 then (if length (d_SOA d) > 0 then True else shouldSkipRecord ets d)
      else if p8 then (if length (d_SRV d) > 0 then True else shouldSkipRecord ets d)
      else if p9 then (if length (d_PTR d) > 0 then True else shouldSkipRecord ets d)
      else if p10 then (if length (d_CAA d) > 0 then True else shouldSkipRecord ets d)
      else False)"
    unfolding ps t_def by (simp only: shouldSkipRecord.simps Let_def)
  have r: "recognised et \<longleftrightarrow> p1 \<or> p2 \<or> p3 \<or> p4 \<or> p5 \<or> p6 \<or> p7 \<or> p8 \<or> p9 \<or> p10"
    unfolding ps t_def recognised_def filterTypeNames_def
    by (simp only: list.set insert_iff empty_iff simp_thms)
  have h: "hasRecordOfType et d \<longleftrightarrow>
      p1 \<and> d_A d \<noteq> [] \<or> p2 \<and> d_AAAA d \<noteq> [] \<or> p3 \<and> d_CNAME d \<noteq> [] \<or>
      p4 \<and> d_NS d \<noteq> [] \<or> p5 \<and> d_TXT d \<noteq> [] \<or> p6 \<and> d_MX d \<noteq> [] \<or>
      p7 \<and> d_SOA d \<noteq> [] \<or> p8 \<and> d_SRV d \<noteq> [] \<or> p9 \<and> d_PTR d \<noteq> [] \<or>
      p10 \<and> d_CAA d \<noteq> []"
    unfolding ps t_def hasRecordOfType_def by (simp only: Let_def)
  have x: "\<not> (p1 \<and> p2)" "\<not> (p1 \<and> p3)" "\<not> (p1 \<and> p4)" "\<not> (p1 \<and> p5)" "\<not> (p1 \<and> p6)" "\<not> (p1 \<and> p7)"
    "\<not> (p1 \<and> p8)" "\<not> (p1 \<and> p9)" "\<not> (p1 \<and> p10)"
    "\<not> (p2 \<and> p3)" "\<not> (p2 \<and> p4)" "\<not> (p2 \<and> p5)" "\<not> (p2 \<and> p6)" "\<not> (p2 \<and> p7)"
    "\<not> (p2 \<and> p8)" "\<not> (p2 \<and> p9)" "\<not> (p2 \<and> p10)"
    "\<not> (p3 \<and> p4)" "\<not> (p3 \<and> p5)" "\<not> (p3 \<and> p6)" "\<not> (p3 \<and> p7)"
    "\<not> (p3 \<and> p8)" "\<not> (p3 \<and> p9)" "\<not> (p3 \<and> p10)"
    "\<not> (p4 \<and> p5)" "\<not> (p4 \<and> p6)" "\<not> (p4 \<and> p7)" "\<not> (p4 \<and> p8)" "\<not> (p4 \<and> p9)" "\<not> (p4 \<and> p10)"
    "\<not> (p5 \<and> p6)" "\<not> (p5 \<and> p7)" "\<not> (p5 \<and> p8)" "\<not> (p5 \<and> p9)" "\<not> (p5 \<and> p10)"
    "\<not> (p6 \<and> p7)" "\<not> (p6 \<and> p8)" "\<not> (p6 \<and> p9)" "\<not> (p6 \<and> p10)"
    "\<not> (p7 \<and> p8)" "\<not> (p7 \<and> p9)" "\<not> (p7 \<and> p10)"
    "\<not> (p8 \<and> p9)" "\<not> (p8 \<and> p10)" "\<not> (p9 \<and> p10)"
    unfolding ps by auto
  show ?thesis
    unfolding s r h using x by (simp only: length_greater_0_conv) argo
qed

lemma shouldSkipRecord_iff:
  "shouldSkipRecord ets d \<longleftrightarrow> (\<exists>et\<in>set (takeWhile recognised ets). hasRecordOfType et d)"
proof (induction ets)
  case Nil
  then show ?case by simp
next
  case (Cons et ets)
  show ?case
    unfolding shouldSkipRecord_step using Cons.IH by auto
qed

text \<open>
  An entry the switch has no case for ends the check: the entries after it are not
  looked at, whatever records the answer has.
\<close>

lemma shouldSkipRecord_unrecognised:
  "\<not> recognised et \<Longrightarrow> shouldSkipRecord (et # ets) d = False"
  by (simp only: shouldSkipRecord_step if_False)

lemma shouldSkipRecord_any_example:
  "shouldSkipRecord [''any'', ''a''] (answer ''a.test'' [''192.0.2.1''] []) = False"
  by (rule shouldSkipRecord_unrecognised)
     (simp add: recognised_def filterTypeNames_def TrimSpace_def isSpace_def ToLower_def toLowerChar_def)

lemma hasRecordOfType_Raw: "hasRecordOfType et (d\<lparr>d_Raw := raw\<rparr>) = hasRecordOfType et d"
  by (simp add: hasRecordOfType_def)

lemma traceStage_DNSData:
  "\<exists>raw. rd_DNSData (traceStage opts lib domain rd) = (rd_DNSData rd)\<lparr>d_Raw := raw\<rparr>"
proof (cases "opt_Trace opts")
  case False
  then have "rd_DNSData (traceStage opts lib domain rd) = (rd_DNSData rd)\<lparr>d_Raw := d_Raw (rd_DNSData rd)\<rparr>"
    by (simp add: traceStage_def)
  then show ?thesis by blast
next
  case True
  show ?thesis
  proof (cases "Trace lib domain")
    case None
    with True have "rd_DNSData (traceStage opts lib domain rd) = (rd_DNSData rd)\<lparr>d_Raw := d_Raw (rd_DNSData rd)\<rparr>"
      by (simp add: traceStage_def)
    then show ?thesis by blast
  next
    case (Some hops)
    with True have "rd_DNSData (traceStage opts lib domain rd) =
        (rd_DNSData rd)\<lparr>d_Raw := d_Raw (rd_DNSData rd) @
           concat (map (\<lambda>h. case hop_RawResp h of
                               Some rawRespString \<Rightarrow>
                                 if opt_Raw opts then rawRespString @ [CHR 0x0A] else []
                             | None \<Rightarrow> []) hops)\<rparr>"
      by (simp add: traceStage_def)
    then show ?thesis by blast
  qed
qed

lemma axfrStage_DNSData:
  "axfrStage opts qts lib domain rd = Some rd1 \<Longrightarrow> rd_DNSData rd1 = rd_DNSData rd"
  by (auto simp: axfrStage_def Let_def split: if_splits option.splits)

lemma cdnStage_DNSData: "rd_DNSData (cdnStage opts lib domain rd) = rd_DNSData rd"
  by (simp add: cdnStage_def)

lemma asnStage_DNSData: "rd_DNSData (asnStage opts lib domain rd) = rd_DNSData rd"
  by (simp add: asnStage_def Let_def split: list.splits)

lemma dispatch_SkipFilter_iff:
  "opt_WildcardDomain opts = [] \<Longrightarrow>
   dispatch opts lib domain rd = SkipFilter \<longleftrightarrow>
     opt_responseTypeFilterMap opts \<noteq> [] \<and>
     shouldSkipRecord (opt_responseTypeFilterMap opts) (rd_DNSData rd)"
  by (simp add: dispatch_def)

lemma worker_domain_dispatched:
  assumes "QueryMultiple lib (domainOf lib item) = Some d"
    and "reachesDispatch (worker_domain lib r item)"
  shows "\<exists>rd raw. worker_domain lib r item = dispatch (options r) lib (domainOf lib item) rd \<and>
           rd_DNSData rd = d\<lparr>d_Raw := raw\<rparr>"
proof -
  let ?dom = "domainOf lib item"
  let ?ini = "\<lparr>rd_DNSData = (if \<not> opt_Raw (options r) then d\<lparr>d_Raw := []\<rparr> else d),
                rd_TraceData = None, rd_AXFRData = None, rd_IsCDNIP = False,
                rd_CDNName = [], rd_ASN = None\<rparr>"
  let ?rd = "traceStage (options r) lib ?dom ?ini"
  let ?ax = "axfrStage (options r) (questionTypes r) lib ?dom ?rd"
  have h: "d_Host d \<noteq> []" "\<not> d_TimestampIsZero d"
    using assms by (auto simp: worker_domain_def Let_def reachesDispatch_def split: if_splits)
  have nr: "\<not> rcodeRejected (options r) d"
    using assms(2) unfolding worker_domain_resolved [OF assms(1) h]
    by (auto simp: reachesDispatch_def split: if_splits)
  have "rd_DNSData ?ini = d\<lparr>d_Raw := (if \<not> opt_Raw (options r) then [] else d_Raw d)\<rparr>"
    by (cases "opt_Raw (options r)") simp_all
  then obtain raw0 where r0: "rd_DNSData ?ini = d\<lparr>d_Raw := raw0\<rparr>" ..
  obtain raw where r1: "rd_DNSData ?rd = (rd_DNSData ?ini)\<lparr>d_Raw := raw\<rparr>"
    using traceStage_DNSData [of "options r" lib ?dom ?ini] by blast
  obtain rd1 where ax: "?ax = Some rd1"
    using assms(2) nr unfolding worker_domain_resolved [OF assms(1) h]
    by (cases ?ax) (auto simp: reachesDispatch_def)
  let ?fin = "asnStage (options r) lib ?dom (cdnStage (options r) lib ?dom rd1)"
  have w: "worker_domain lib r item = dispatch (options r) lib ?dom ?fin"
    unfolding worker_domain_resolved [OF assms(1) h] using nr ax by simp
  have "rd_DNSData ?fin = rd_DNSData ?rd"
    using axfrStage_DNSData [OF ax] by (simp add: asnStage_DNSData cdnStage_DNSData)
  also have "\<dots> = d\<lparr>d_Raw := raw\<rparr>"
    unfolding r1 r0 by simp
  finally show ?thesis using w by blast
qed

lemma shouldSkipRecord_Raw: "shouldSkipRecord ets (d\<lparr>d_Raw := raw\<rparr>) = shouldSkipRecord ets d"
  by (simp add: shouldSkipRecord_iff hasRecordOfType_Raw)

text \<open>
  C8 (amended): with wildcard filtering disabled and a response-type filter whose entries
  are all among the ten type names \<^verbatim>\<open>shouldSkipRecord\<close> knows, a resolved entry that
  reaches the dispatch is skipped by the filter check if and only if its answer has at
  least one record of at least one of the filter types; a skipped entry sends nothing to
  the output.
\<close>

theorem C8_filter_skips_iff_record_of_filter_type:
  assumes "QueryMultiple lib (domainOf lib item) = Some d"
    and "reachesDispatch (worker_domain lib r item)"
    and "opt_WildcardDomain (options r) = []"
    and "opt_responseTypeFilterMap (options r) \<noteq> []"
    and "list_all recognised (opt_responseTypeFilterMap (options r))"
  shows "(worker_domain lib r item = SkipFilter \<longleftrightarrow>
            (\<exists>et\<in>set (opt_responseTypeFilterMap (options r)). hasRecordOfType et d)) \<and>
         (worker_domain lib r item = SkipFilter \<longrightarrow>
            outputchan (worker_item lib cd item r) = outputchan r)"
proof -
  from worker_domain_dispatched [OF assms(1,2)] obtain rd raw where
    w: "worker_domain lib r item = dispatch (options r) lib (domainOf lib item) rd"
    and d: "rd_DNSData rd = d\<lparr>d_Raw := raw\<rparr>"
    by blast
  have t: "takeWhile recognised (opt_responseTypeFilterMap (options r)) = opt_responseTypeFilterMap (options r)"
    using assms(5) by (simp add: list_all_iff)
  have "worker_domain lib r item = SkipFilter \<longleftrightarrow>
          shouldSkipRecord (opt_responseTypeFilterMap (options r)) d"
    unfolding w dispatch_SkipFilter_iff [OF assms(3)] d shouldSkipRecord_Raw
    using assms(4) by simp
  also have "\<dots> \<longleftrightarrow> (\<exists>et\<in>set (opt_responseTypeFilterMap (options r)). hasRecordOfType et d)"
    unfolding shouldSkipRecord_iff t ..
  finally have a: "worker_domain lib r item = SkipFilter \<longleftrightarrow>
            (\<exists>et\<in>set (opt_responseTypeFilterMap (options r)). hasRecordOfType et d)" .
  have b: "worker_domain lib r item = SkipFilter \<longrightarrow>
            outputchan (worker_item lib cd item r) = outputchan r"
    by (simp add: worker_item_def)
  from a b show ?thesis by blast
qed

text \<open>
  C8 (as stated, refuted): the claim says that nothing is emitted for an entry exactly
  when its answer has a record of a filter type. With the filter \<^verbatim>\<open>a\<close>, the answer of
  \<^verbatim>\<open>b.test\<close> has no record at all: the filter check lets it pass, the record-type
  output then finds nothing to print, and nothing is emitted for it.
\<close>

theorem C8_nothing_emitted_without_filtered_record:
  "opt_responseTypeFilterMap (options (newRunner (defaultOptions\<lparr>opt_responseTypeFilterMap := [''a'']\<rparr>)))
     = [''a''] \<and>
   QueryMultiple exampleLib ''b.test'' = Some ((answer ''b.test'' [] [])\<lparr>d_StatusCodeRaw := 3\<rparr>) \<and>
   \<not> hasRecordOfType ''a'' ((answer ''b.test'' [] [])\<lparr>d_StatusCodeRaw := 3\<rparr>) \<and>
   worker_domain exampleLib (newRunner (defaultOptions\<lparr>opt_responseTypeFilterMap := [''a'']\<rparr>)) ''b.test''
     = Output [] \<and>
   outputchan (worker_item exampleLib wildCodec ''b.test''
                 (newRunner (defaultOptions\<lparr>opt_responseTypeFilterMap := [''a'']\<rparr>))) = []"
proof -
  let ?r = "newRunner (defaultOptions\<lparr>opt_responseTypeFilterMap := [''a'']\<rparr>)"
  have w: "worker_domain exampleLib ?r ''b.test'' = Output []"
    by (simp add: worker_eval TrimSpace_def isSpace_def ToLower_def toLowerChar_def)
  have o: "outputchan (worker_item exampleLib wildCodec ''b.test'' ?r) = []"
    unfolding worker_item_def w by (simp add: newRunner_def)
  have h: "\<not> hasRecordOfType ''a'' ((answer ''b.test'' [] [])\<lparr>d_StatusCodeRaw := 3\<rparr>)"
    by (simp add: hasRecordOfType_def answer_def)
  have f: "opt_responseTypeFilterMap (options ?r) = [''a'']"
    by (simp add: newRunner_def New_options_def)
  from f h w o show ?thesis by (simp add: exampleLib_query)
qed

theorem C8_filter_skips_iff_record_of_filter_type_witness:
  "worker_domain exampleLib (newRunner (defaultOptions\<lparr>opt_responseTypeFilterMap := [''a'']\<rparr>)) ''a.test''
     = SkipFilter \<and>
   worker_domain exampleLib (newRunner (defaultOptions\<lparr>opt_responseTypeFilterMap := [''a'']\<rparr>)) ''b.test''
     \<noteq> SkipFilter"
proof -
  let ?r = "newRunner (defaultOptions\<lparr>opt_responseTypeFilterMap := [''a'']\<rparr>)"
  have f: "opt_responseTypeFilterMap (options ?r) = [''a'']" "opt_WildcardDomain (options ?r) = []"
    by (simp_all add: newRunner_def New_options_def defaultOptions_def)
  have ne: "opt_responseTypeFilterMap (options ?r) \<noteq> []" using f by simp
  have rec: "list_all recognised (opt_responseTypeFilterMap (options ?r))"
    unfolding f by (simp add: recognised_def filterTypeNames_def TrimSpace_def isSpace_def ToLower_def toLowerChar_def)
  have ra: "reachesDispatch (worker_domain exampleLib ?r ''a.test'')"
    by (simp add: worker_eval reachesDispatch_def TrimSpace_def isSpace_def ToLower_def toLowerChar_def)
  have rb: "reachesDispatch (worker_domain exampleLib ?r ''b.test'')"
    by (simp add: worker_eval reachesDispatch_def TrimSpace_def isSpace_def ToLower_def toLowerChar_def)
  have qa: "QueryMultiple exampleLib (domainOf exampleLib ''a.test'') = Some (answer ''a.test'' [''192.0.2.1''] [])"
    and qb: "QueryMultiple exampleLib (domainOf exampleLib ''b.test'') = Some ((answer ''b.test'' [] [])\<lparr>d_StatusCodeRaw := 3\<rparr>)"
    by (simp_all add: exampleLib_query)
  have ha: "hasRecordOfType ''a'' (answer ''a.test'' [''192.0.2.1''] [])"
    and hb: "\<not> hasRecordOfType ''a'' ((answer ''b.test'' [] [])\<lparr>d_StatusCodeRaw := 3\<rparr>)"
    by (simp_all add: hasRecordOfType_def answer_def TrimSpace_def isSpace_def ToLower_def toLowerChar_def)
  show ?thesis
    using C8_filter_skips_iff_record_of_filter_type [OF qa ra f(2) ne rec, of wildCodec]
      C8_filter_skips_iff_record_of_filter_type [OF qb rb f(2) ne rec, of wildCodec] ha hb
    unfolding f(1) by simp
qed


subsection \<open>Record-type output\<close>

lemma outputRecords_default:
  "\<not> opt_Response opts \<Longrightarrow> \<not> opt_ResponseOnly opts \<Longrightarrow>
   outputRecords opts lib domain queryType details records =
     (if records = [] then [] else [domain @ details])"
  by (cases records) simp_all

lemma concat_map_replicate:
  "concat (map (\<lambda>x. if P x then [l] else []) xs) = replicate (length (filter P xs)) l"
  by (induction xs) simp_all

text \<open>
  C5 (as stated, refuted): the claim says the line is emitted at most once per host across
  all requested types. With the switches A and AAAA on, \<^verbatim>\<open>d.test\<close> has records of
  both types and the worker prints its line twice.
\<close>

theorem C5_line_once_per_enabled_type:
  "\<not> opt_Response (options (newRunner (defaultOptions\<lparr>opt_A := True, opt_AAAA := True\<rparr>))) \<and>
   \<not> opt_ResponseOnly (options (newRunner (defaultOptions\<lparr>opt_A := True, opt_AAAA := True\<rparr>))) \<and>
   worker_domain exampleLib (newRunner (defaultOptions\<lparr>opt_A := True, opt_AAAA := True\<rparr>)) ''d.test''
     = Output [''d.test'', ''d.test''] \<and>
   count_list [''d.test'', ''d.test''] ''d.test'' = 2"
  by (simp add: worker_eval)

lemma worker_domain_enrich:
  assumes "QueryMultiple lib (domainOf lib item) = Some d"
    and "reachesDispatch (worker_domain lib r item)"
  shows "\<exists>rd raw. enrich lib r (domainOf lib item) d = Some rd \<and>
           rd_DNSData rd = d\<lparr>d_Raw := raw\<rparr> \<and>
           worker_domain lib r item = dispatch (options r) lib (domainOf lib item) rd"
proof -
  let ?dom = "domainOf lib item"
  let ?ini = "\<lparr>rd_DNSData = (if \<not> opt_Raw (options r) then d\<lparr>d_Raw := []\<rparr> else d),
                rd_TraceData = None, rd_AXFRData = None, rd_IsCDNIP = False,
                rd_CDNName = [], rd_ASN = None\<rparr>"
  let ?tr = "traceStage (options r) lib ?dom ?ini"
  let ?ax = "axfrStage (options r) (questionTypes r) lib ?dom ?tr"
  have h: "d_Host d \<noteq> []" "\<not> d_TimestampIsZero d"
    using assms by (auto simp: worker_domain_def Let_def reachesDispatch_def split: if_splits)
  have nr: "\<not> rcodeRejected (options r) d"
    using assms(2) unfolding worker_domain_resolved [OF assms(1) h]
    by (auto simp: reachesDispatch_def split: if_splits)
  have "rd_DNSData ?ini = d\<lparr>d_Raw := (if \<not> opt_Raw (options r) then [] else d_Raw d)\<rparr>"
    by (cases "opt_Raw (options r)") simp_all
  then obtain raw0 where r0: "rd_DNSData ?ini = d\<lparr>d_Raw := raw0\<rparr>" ..
  obtain raw where r1: "rd_DNSData ?tr = (rd_DNSData ?ini)\<lparr>d_Raw := raw\<rparr>"
    using traceStage_DNSData [of "options r" lib ?dom ?ini] by blast
  obtain rd1 where ax: "?ax = Some rd1"
    using assms(2) nr unfolding worker_domain_resolved [OF assms(1) h]
    by (cases ?ax) (auto simp: reachesDispatch_def)
  let ?fin = "asnStage (options r) lib ?dom (cdnStage (options r) lib ?dom rd1)"
  have e: "enrich lib r ?dom d = Some ?fin"
    unfolding enrich_def using ax by simp
  have w: "worker_domain lib r item = dispatch (options r) lib ?dom ?fin"
    unfolding worker_domain_resolved [OF assms(1) h] using nr ax by simp
  have "rd_DNSData ?fin = rd_DNSData ?tr"
    using axfrStage_DNSData [OF ax] by (simp add: asnStage_DNSData cdnStage_DNSData)
  also have "\<dots> = d\<lparr>d_Raw := raw\<rparr>"
    unfolding r1 r0 by simp
  finally show ?thesis using e w by blast
qed

lemma outputRecordType_default:
  "\<not> opt_Response opts \<Longrightarrow> \<not> opt_ResponseOnly opts \<Longrightarrow>
   outputRecordType opts lib domain (Strings records) queryType cdnName asn =
     (if records \<noteq> [] then [domain @ detailsOf lib cdnName asn] else [])"
  by (simp add: outputRecordType_def outputRecords_default)

lemma outputTyped_default:
  assumes "\<not> opt_Response opts" and "\<not> opt_ResponseOnly opts"
  shows "outputTyped opts lib domain rd =
           replicate
             (length (filter (\<lambda>(enabled, queryType, records). enabled \<and> records \<noteq> [])
                             (switchRecords opts lib (rd_DNSData rd))))
             (domain @ detailsOf lib (rd_CDNName rd) (rd_ASN rd))"
proof -
  let ?l = "domain @ detailsOf lib (rd_CDNName rd) (rd_ASN rd)"
  have "(\<lambda>(enabled, queryType, records).
           if enabled
           then outputRecordType opts lib domain (Strings records) queryType (rd_CDNName rd) (rd_ASN rd)
           else []) =
        (\<lambda>x. if (\<lambda>(enabled, queryType, records). enabled \<and> records \<noteq> []) x then [?l] else [])"
    using assms by (auto simp: fun_eq_iff outputRecordType_default)
  then show ?thesis
    unfolding outputTyped_def by (simp only: concat_map_replicate)
qed

lemma outputFiltered_default:
  assumes "\<not> opt_Response opts" and "\<not> opt_ResponseOnly opts"
  shows "outputFiltered opts lib domain rd =
           replicate
             (length (filter (\<lambda>(queryType, records). records \<noteq> [])
                             (filterRecords lib (rd_DNSData rd))))
             (domain @ detailsOf lib (rd_CDNName rd) (rd_ASN rd))"
proof -
  let ?l = "domain @ detailsOf lib (rd_CDNName rd) (rd_ASN rd)"
  have "outputFiltered opts lib domain rd =
        concat (map (\<lambda>x. if (\<lambda>(queryType, records). records \<noteq> []) x then [?l] else [])
                  (filterRecords lib (rd_DNSData rd)))"
    unfolding outputFiltered_def filterRecords_def Let_def
    by (simp only: outputRecordType_default [OF assms] list.map concat.simps case_prod_conv append_Nil2)
  then show ?thesis
    by (simp only: concat_map_replicate)
qed

text \<open>
  C5 (amended): in the default record-type output mode (neither \<^verbatim>\<open>-resp\<close> nor
  \<^verbatim>\<open>-resp-only\<close>, no JSON, no raw output, no wildcard filtering) the worker emits,
  for a resolved host that reaches the dispatch, only copies of the line
  \<^verbatim>\<open>host [CDN] [ASN]\<close>, one per record type with records: without a response-type
  filter (and outside response-code mode) one for every enabled record-type switch whose
  records are not empty; with a response-type filter that does not skip the entry, one
  for every one of the ten record types of lines 751-760 whose records are not empty,
  whatever the switches. The records are those of the resolved answer, whose raw field
  alone may have changed.
\<close>

theorem C5_worker_line_once_per_type:
  assumes "QueryMultiple lib (domainOf lib item) = Some d"
    and "reachesDispatch (worker_domain lib r item)"
    and "\<not> opt_Response (options r)" and "\<not> opt_ResponseOnly (options r)"
    and "\<not> opt_JSON (options r)" and "\<not> opt_Raw (options r)"
    and "opt_WildcardDomain (options r) = []"
  shows "\<exists>rd raw.
           enrich lib r (domainOf lib item) d = Some rd \<and> rd_DNSData rd = d\<lparr>d_Raw := raw\<rparr> \<and>
           (opt_responseTypeFilterMap (options r) = [] \<and> \<not> opt_hasRCodes (options r) \<longrightarrow>
              worker_domain lib r item =
                Output (replicate
                  (length (filter (\<lambda>(enabled, queryType, records). enabled \<and> records \<noteq> [])
                                  (switchRecords (options r) lib (rd_DNSData rd))))
                  (domainOf lib item @ detailsOf lib (rd_CDNName rd) (rd_ASN rd)))) \<and>
           (opt_responseTypeFilterMap (options r) \<noteq> [] \<and> worker_domain lib r item \<noteq> SkipFilter \<longrightarrow>
              worker_domain lib r item =
                Output (replicate
                  (length (filter (\<lambda>(queryType, records). records \<noteq> [])
                                  (filterRecords lib (rd_DNSData rd))))
                  (domainOf lib item @ detailsOf lib (rd_CDNName rd) (rd_ASN rd))))"
proof -
  from worker_domain_enrich [OF assms(1,2)] obtain rd raw where
    e: "enrich lib r (domainOf lib item) d = Some rd"
    and d: "rd_DNSData rd = d\<lparr>d_Raw := raw\<rparr>"
    and w: "worker_domain lib r item = dispatch (options r) lib (domainOf lib item) rd"
    by blast
  have a: "opt_responseTypeFilterMap (options r) = [] \<and> \<not> opt_hasRCodes (options r) \<longrightarrow>
              worker_domain lib r item =
                Output (replicate
                  (length (filter (\<lambda>(enabled, queryType, records). enabled \<and> records \<noteq> [])
                                  (switchRecords (options r) lib (rd_DNSData rd))))
                  (domainOf lib item @ detailsOf lib (rd_CDNName rd) (rd_ASN rd)))"
    unfolding w using assms(5-7)
    by (simp add: dispatch_def outputTyped_default [OF assms(3,4)])
  have b: "opt_responseTypeFilterMap (options r) \<noteq> [] \<and> worker_domain lib r item \<noteq> SkipFilter \<longrightarrow>
              worker_domain lib r item =
                Output (replicate
                  (length (filter (\<lambda>(queryType, records). records \<noteq> [])
                                  (filterRecords lib (rd_DNSData rd))))
                  (domainOf lib item @ detailsOf lib (rd_CDNName rd) (rd_ASN rd)))"
    unfolding w using assms(5-7)
    by (simp add: dispatch_def outputFiltered_default [OF assms(3,4)])
  from e d a b show ?thesis by blast
qed

theorem C5_worker_line_once_per_type_witness:
  "worker_domain exampleLib (newRunner (defaultOptions\<lparr>opt_A := True, opt_AAAA := True\<rparr>)) ''d.test''
     = Output [''d.test'', ''d.test''] \<and>
   worker_domain exampleLib
      (newRunner (defaultOptions\<lparr>opt_A := True, opt_responseTypeFilterMap := [''cname'']\<rparr>)) ''d.test''
     = Output [''d.test'', ''d.test'']"
proof -
  let ?d = "(answer ''d.test'' [''192.0.2.1''] [])\<lparr>d_AAAA := [''2001:db8::1'']\<rparr>"
  let ?rd = "\<lparr>rd_DNSData = ?d, rd_TraceData = None, rd_AXFRData = None, rd_IsCDNIP = False,
              rd_CDNName = [], rd_ASN = None\<rparr>"
  let ?r1 = "newRunner (defaultOptions\<lparr>opt_A := True, opt_AAAA := True\<rparr>)"
  let ?r2 = "newRunner (defaultOptions\<lparr>opt_A := True, opt_responseTypeFilterMap := [''cname'']\<rparr>)"
  have q: "QueryMultiple exampleLib (domainOf exampleLib ''d.test'') = Some ?d"
    by (simp add: exampleLib_query)
  have o1: "options ?r1 = defaultOptions\<lparr>opt_A := True, opt_AAAA := True\<rparr>"
    and o2: "options ?r2 = defaultOptions\<lparr>opt_A := True, opt_responseTypeFilterMap := [''cname'']\<rparr>"
    by (simp_all add: newRunner_def New_options_def)
  have m1: "\<not> opt_Response (options ?r1)" "\<not> opt_ResponseOnly (options ?r1)"
      "\<not> opt_JSON (options ?r1)" "\<not> opt_Raw (options ?r1)" "opt_WildcardDomain (options ?r1) = []"
      "opt_responseTypeFilterMap (options ?r1) = [] \<and> \<not> opt_hasRCodes (options ?r1)"
    unfolding o1 by (simp_all add: defaultOptions_def)
  have m2: "\<not> opt_Response (options ?r2)" "\<not> opt_ResponseOnly (options ?r2)"
      "\<not> opt_JSON (options ?r2)" "\<not> opt_Raw (options ?r2)" "opt_WildcardDomain (options ?r2) = []"
      "opt_responseTypeFilterMap (options ?r2) \<noteq> []"
    unfolding o2 by (simp_all add: defaultOptions_def)
  have w1: "reachesDispatch (worker_domain exampleLib ?r1 ''d.test'')"
    by (simp add: worker_eval reachesDispatch_def)
  have w2: "reachesDispatch (worker_domain exampleLib ?r2 ''d.test'')"
    and s2: "worker_domain exampleLib ?r2 ''d.test'' \<noteq> SkipFilter"
    by (simp_all add: worker_eval reachesDispatch_def TrimSpace_def isSpace_def ToLower_def toLowerChar_def)
  have e1: "enrich exampleLib ?r1 (domainOf exampleLib ''d.test'') ?d = Some ?rd"
    unfolding enrich_def o1
    by (simp add: exampleLib_query axfrStage_def traceStage_def cdnStage_def asnStage_def
        defaultOptions_def answer_def)
  have e2: "enrich exampleLib ?r2 (domainOf exampleLib ''d.test'') ?d = Some ?rd"
    unfolding enrich_def o2
    by (simp add: exampleLib_query axfrStage_def traceStage_def cdnStage_def asnStage_def
        defaultOptions_def answer_def)
  have n1: "length (filter (\<lambda>(enabled, queryType, records). enabled \<and> records \<noteq> [])
                     (switchRecords (options ?r1) exampleLib (rd_DNSData ?rd))) = 2"
    unfolding o1 by (simp add: switchRecords_def defaultOptions_def answer_def)
  have n2: "length (filter (\<lambda>(queryType, records). records \<noteq> [])
                     (filterRecords exampleLib (rd_DNSData ?rd))) = 2"
    by (simp add: filterRecords_def answer_def exampleLib_query dedupeFirst_def)
  have l: "domainOf exampleLib ''d.test'' @ detailsOf exampleLib (rd_CDNName ?rd) (rd_ASN ?rd) = ''d.test''"
    by (simp add: exampleLib_query detailsOf_def)
  have t: "replicate 2 ''d.test'' = [''d.test'', ''d.test'']"
    by (simp add: numeral_2_eq_2)
  from C5_worker_line_once_per_type [OF q w1 m1(1-5)] obtain rd raw where
    "enrich exampleLib ?r1 (domainOf exampleLib ''d.test'') ?d = Some rd"
    and "opt_responseTypeFilterMap (options ?r1) = [] \<and> \<not> opt_hasRCodes (options ?r1) \<longrightarrow>
         worker_domain exampleLib ?r1 ''d.test'' =
           Output (replicate
             (length (filter (\<lambda>(enabled, queryType, records). enabled \<and> records \<noteq> [])
                             (switchRecords (options ?r1) exampleLib (rd_DNSData rd))))
             (domainOf exampleLib ''d.test'' @ detailsOf exampleLib (rd_CDNName rd) (rd_ASN rd)))"
    by blast
  with e1 m1(6) have "worker_domain exampleLib ?r1 ''d.test'' =
           Output (replicate
             (length (filter (\<lambda>(enabled, queryType, records). enabled \<and> records \<noteq> [])
                             (switchRecords (options ?r1) exampleLib (rd_DNSData ?rd))))
             (domainOf exampleLib ''d.test'' @ detailsOf exampleLib (rd_CDNName ?rd) (rd_ASN ?rd)))"
    by auto
  then have a: "worker_domain exampleLib ?r1 ''d.test'' = Output [''d.test'', ''d.test'']"
    by (simp only: n1 l t)
  from C5_worker_line_once_per_type [OF q w2 m2(1-5)] obtain rd' raw' where
    "enrich exampleLib ?r2 (domainOf exampleLib ''d.test'') ?d = Some rd'"
    and "opt_responseTypeFilterMap (options ?r2) \<noteq> [] \<and> worker_domain exampleLib ?r2 ''d.test'' \<noteq> SkipFilter \<longrightarrow>
         worker_domain exampleLib ?r2 ''d.test'' =
           Output (replicate
             (length (filter (\<lambda>(queryType, records). records \<noteq> [])
                             (filterRecords exampleLib (rd_DNSData rd'))))
             (domainOf exampleLib ''d.test'' @ detailsOf exampleLib (rd_CDNName rd') (rd_ASN rd')))"
    by blast
  with e2 m2(6) s2 have "worker_domain exampleLib ?r2 ''d.test'' =
           Output (replicate
             (length (filter (\<lambda>(queryType, records). records \<noteq> [])
                             (filterRecords exampleLib (rd_DNSData ?rd))))
             (domainOf exampleLib ''d.test'' @ detailsOf exampleLib (rd_CDNName ?rd) (rd_ASN ?rd)))"
    by auto
  then have b: "worker_domain exampleLib ?r2 ''d.test'' = Output [''d.test'', ''d.test'']"
    by (simp only: n2 l t)
  from a b show ?thesis ..
qed

end
